theory Spec2Isabelle
  imports Main
begin

section \<open>Comparison batch allocation and vote ingestion\<close>

text \<open>
  A shallow embedding of \<^verbatim>\<open>get_comparison_batch\<close> and \<^verbatim>\<open>post_comparison\<close> of
  \<^verbatim>\<open>mc_bench/apps/api/routers/comparison.py\<close>. The durable store, the ephemeral cache,
  the clock and the job queue are explicit state, and a handler maps a state to its
  response and the state it leaves. Every exception the Python raises in the handlers
  is a value of \<open>error\<close>; the state beside an error is the one at the raise, since the
  cache does not roll back. A request takes no time, and the failures of the storage
  and cache connections themselves are outside the model.
\<close>

subsection \<open>Errors\<close>

text \<open>
  \<open>HTTPException status detail\<close> is FastAPI's exception (its headers are left out);
  the others are the Python exceptions the two handlers leave uncaught (the framework
  turns them into a 500).
\<close>

datatype error =
    HTTPException nat string
  | KeyError
  | ValueError
  | AttributeError
  | IndexError
  | NoResultFound
  | MultipleResultsFound

subsection \<open>Rows of the durable store\<close>

text \<open>A \<open>uuid\<close> is the integer value of a Python \<^verbatim>\<open>uuid.UUID\<close> (its equality and hash).\<close>

type_synonym uuid = nat

record TestSet =
  TestSet_id :: int
  TestSet_name :: string

record User =
  User_id :: int
  User_external_id :: string
  User_scopes :: "string list"

record Metric =
  Metric_id :: int
  Metric_external_id :: string

text \<open>\<open>Sample_run_model_name\<close> is \<^verbatim>\<open>sample.run.model.name\<close>.\<close>

record Sample =
  Sample_id :: int
  Sample_comparison_sample_id :: uuid
  Sample_test_set_id :: "int option"
  Sample_run_model_name :: string

record Comparison =
  Comparison_id :: int
  Comparison_user_id :: "int option"
  Comparison_metric_id :: int
  Comparison_test_set_id :: "int option"
  Comparison_session_id :: int
  Comparison_identification_token_id :: int

record ComparisonRank =
  ComparisonRank_comparison_id :: int
  ComparisonRank_sample_id :: int
  ComparisonRank_rank :: nat

text \<open>
  The session's view of the database: one list of rows per table, and the sequence
  that numbers \<open>Comparison\<close> rows at \<^verbatim>\<open>db.flush()\<close>.
\<close>

record db =
  test_set_tbl :: "TestSet list"
  user_tbl :: "User list"
  metric_tbl :: "Metric list"
  sample_tbl :: "Sample list"
  comparison_tbl :: "Comparison list"
  comparison_rank_tbl :: "ComparisonRank list"
  comparison_id_seq :: int

text \<open>
  Every statement a handler sends to the session, in order. The log is not part of the
  Python; it records which storage accesses a request performed.
\<close>

datatype db_op =
    Select_TestSet_id string
  | Select_User string
  | Process_session_headers
  | Select_Metric string
  | Execute string int int
  | Select_avg_vote_count int
  | Select_Sample "uuid list"
  | Insert_Comparison
  | Insert_ComparisonRank

subsection \<open>The ephemeral cache\<close>

text \<open>
  The Redis database of the comparison router: a key holds a value and, when it was set
  with an expiry, the time (in seconds) at which it stops existing. A key whose time has
  come is absent for every command.
\<close>

type_synonym redis_db = "string \<Rightarrow> (string \<times> nat option) option"

definition redis_get :: "nat \<Rightarrow> redis_db \<Rightarrow> string \<Rightarrow> string option" where
  "redis_get t r k =
     (case r k of
        None \<Rightarrow> None
      | Some (v, None) \<Rightarrow> Some v
      | Some (v, Some d) \<Rightarrow> if t < d then Some v else None)"

text \<open>\<^verbatim>\<open>redis.setex(name, time, value)\<close>\<close>

definition redis_setex :: "nat \<Rightarrow> string \<Rightarrow> nat \<Rightarrow> string \<Rightarrow> redis_db \<Rightarrow> redis_db" where
  "redis_setex t k ttl v r = r(k \<mapsto> (v, Some (t + ttl)))"

text \<open>\<^verbatim>\<open>redis.getdel(name)\<close>: the value, and the key is gone.\<close>

definition redis_getdel :: "nat \<Rightarrow> string \<Rightarrow> redis_db \<Rightarrow> string option \<times> redis_db" where
  "redis_getdel t k r = (redis_get t r k, r(k := None))"

text \<open>\<^verbatim>\<open>redis.set(name, value, ex=..., nx=True)\<close>: true when the key was set.\<close>

definition redis_set_ex_nx ::
  "nat \<Rightarrow> string \<Rightarrow> string \<Rightarrow> nat \<Rightarrow> redis_db \<Rightarrow> bool \<times> redis_db" where
  "redis_set_ex_nx t k v ex r =
     (case redis_get t r k of
        Some _ \<Rightarrow> (False, r)
      | None \<Rightarrow> (True, r(k \<mapsto> (v, Some (t + ex)))))"

subsection \<open>State and collaborators\<close>

text \<open>
  \<open>now\<close> is the clock in seconds, \<open>celery\<close> the names of the jobs sent with
  \<^verbatim>\<open>send_task\<close>, \<open>uuid4_calls\<close> the number of tokens drawn so far.
\<close>

record state =
  db :: db
  db_log :: "db_op list"
  redis :: redis_db
  now :: nat
  celery :: "string list"
  uuid4_calls :: nat

type_synonym request_obj = string

type_synonym Row = "string list"

text \<open>
  What the handlers use and this repository's sources do not define, as parameters:
  the two settings, the permission constant \<^verbatim>\<open>PERM.VOTING.VOTE\<close>, the standard
  library's \<^verbatim>\<open>uuid.uuid4\<close> (the n-th draw, as its string) and \<^verbatim>\<open>uuid.UUID\<close>
  (\<open>None\<close> is its ValueError), the auth manager's \<^verbatim>\<open>process_session_headers\<close>
  (the session and identification token ids it returns; the session tables it keeps
  are not tables of \<open>db\<close>) and the rows of a prepared statement executed by name
  (\<open>None\<close> when the execution raises). \<open>request_obj\<close> stands for the HTTP request the
  auth manager reads.
\<close>

record env =
  USE_PRIORITY_COMPARISON :: bool
  EXTERNAL_OBJECT_BUCKET :: string
  PERM_VOTING_VOTE :: string
  uuid_uuid4 :: "nat \<Rightarrow> string"
  uuid_UUID :: "string \<Rightarrow> uuid option"
  process_session_headers :: "request_obj \<Rightarrow> db \<Rightarrow> User option \<Rightarrow> int \<times> int"
  db_execute :: "string \<Rightarrow> int \<Rightarrow> int \<Rightarrow> db \<Rightarrow> Row list option"

definition MAX_BATCH_SIZE :: int where
  "MAX_BATCH_SIZE = 10"

definition log_db :: "db_op \<Rightarrow> state \<Rightarrow> state" where
  "log_db op s = s\<lparr>db_log := db_log s @ [op]\<rparr>"

text \<open>\<^verbatim>\<open>db.scalar(select(...).where(...))\<close>: the first row, or None.\<close>

definition scalar :: "('a \<Rightarrow> bool) \<Rightarrow> 'a list \<Rightarrow> 'a option" where
  "scalar p rows = (case filter p rows of [] \<Rightarrow> None | x # _ \<Rightarrow> Some x)"

text \<open>\<^verbatim>\<open>db.scalars(select(...).where(...)).one()\<close>: exactly one row, or it raises.\<close>

definition one :: "('a \<Rightarrow> bool) \<Rightarrow> 'a list \<Rightarrow> error + 'a" where
  "one p rows =
     (case filter p rows of
        [] \<Rightarrow> Inl NoResultFound
      | [x] \<Rightarrow> Inr x
      | _ \<Rightarrow> Inl MultipleResultsFound)"

subsection \<open>Vote submission: \<^verbatim>\<open>post_comparison\<close>\<close>

text \<open>The cache key of a token: \<^verbatim>\<open>f"active_comparison:{token}"\<close>.\<close>

definition active_comparison :: "string \<Rightarrow> string" where
  "active_comparison token = ''active_comparison:'' @ token"

text \<open>
  An element of \<^verbatim>\<open>ordered_sample_ids\<close> is one sample id or a list of them
  (\<^verbatim>\<open>isinstance(sample_or_samples, list)\<close>); the ids are the UUID objects the request
  was parsed into, the keys of \<^verbatim>\<open>sample_lookup\<close>. The token is the string the key is
  formatted from.
\<close>

datatype ranked = Single uuid | Group "uuid list"

record UserComparisonRequest =
  comparison_details_token :: string
  ordered_sample_ids :: "ranked list"

record vote_response =
  sample_1_model :: string
  sample_2_model :: string

text \<open>Python truthiness of an optional string and of an optional integer.\<close>

definition truthy_str :: "string option \<Rightarrow> bool" where
  "truthy_str x = (case x of None \<Rightarrow> False | Some u \<Rightarrow> u \<noteq> [])"

definition truthy_int :: "int option \<Rightarrow> bool" where
  "truthy_int x = (case x of None \<Rightarrow> False | Some n \<Rightarrow> n \<noteq> 0)"

text \<open>
  Lines 251-264: the caller. \<^verbatim>\<open>if user_uuid:\<close> takes the authenticated branch for a
  user id that is neither None nor empty. The result is \<open>(user, can_vote, session_id,
  identification_token_id)\<close>.
\<close>

definition resolve_caller ::
  "env \<Rightarrow> request_obj \<Rightarrow> string option \<Rightarrow> state
     \<Rightarrow> (error + (User option \<times> bool \<times> int \<times> int)) \<times> state" where
  "resolve_caller env request_obj user_uuid s =
     (case (if truthy_str user_uuid then user_uuid else None) of
        Some u \<Rightarrow>
          (let s1 = log_db (Select_User u) s in
           case one (\<lambda>x. User_external_id x = u) (user_tbl (db s1)) of
             Inl e \<Rightarrow> (Inl e, s1)
           | Inr user \<Rightarrow>
               (let (session_id, identification_token_id) =
                      process_session_headers env request_obj (db s1) (Some user);
                    s2 = log_db Process_session_headers s1;
                    can_vote = (PERM_VOTING_VOTE env \<in> set (User_scopes user))
                in (Inr (Some user, can_vote, session_id, identification_token_id), s2)))
      | None \<Rightarrow>
          (let (session_id, identification_token_id) =
                 process_session_headers env request_obj (db s) None;
               s1 = log_db Process_session_headers s
           in (Inr (None, True, session_id, identification_token_id), s1)))"

text \<open>\<^verbatim>\<open>str.split(":", 1)\<close>: one part when there is no colon, two otherwise.\<close>

definition split_colon :: "string \<Rightarrow> string list" where
  "split_colon x =
     (case dropWhile (\<lambda>c. c \<noteq> CHR '':'') x of
        [] \<Rightarrow> [x]
      | _ # rest \<Rightarrow> [takeWhile (\<lambda>c. c \<noteq> CHR '':'') x, rest])"

text \<open>
  Lines 274-275: the stored value back to \<open>(metric_id, sample_1_id, sample_2_id)\<close>.
  Unpacking anything but two parts raises ValueError, as \<^verbatim>\<open>uuid.UUID\<close> does on a
  string it cannot read.
\<close>

definition parse_token_data :: "env \<Rightarrow> string \<Rightarrow> error + (string \<times> uuid \<times> uuid)" where
  "parse_token_data env token_data =
     (case split_colon token_data of
        [metric_id, sample_data] \<Rightarrow>
          (case split_colon sample_data of
             [a, b] \<Rightarrow>
               (case uuid_UUID env a of
                  None \<Rightarrow> Inl ValueError
                | Some sample_1_id \<Rightarrow>
                    (case uuid_UUID env b of
                       None \<Rightarrow> Inl ValueError
                     | Some sample_2_id \<Rightarrow> Inr (metric_id, sample_1_id, sample_2_id)))
           | _ \<Rightarrow> Inl ValueError)
      | _ \<Rightarrow> Inl ValueError)"

text \<open>
  Line 284: the dict comprehension; of two samples with one key the later one stays.
\<close>

definition sample_lookup_of :: "Sample list \<Rightarrow> uuid \<Rightarrow> Sample option" where
  "sample_lookup_of samples = map_of (rev (map (\<lambda>x. (Sample_comparison_sample_id x, x)) samples))"

text \<open>Lines 293-294: the inner loop over a tie group; a missing key raises KeyError.\<close>

fun append_group ::
  "(uuid \<Rightarrow> Sample option) \<Rightarrow> nat \<Rightarrow> uuid list \<Rightarrow> (nat \<times> Sample) list
     \<Rightarrow> error + (nat \<times> Sample) list" where
  "append_group sample_lookup rnk [] ranks = Inr ranks"
| "append_group sample_lookup rnk (ranked_sample_id # rest) ranks =
     (case sample_lookup ranked_sample_id of
        None \<Rightarrow> Inl KeyError
      | Some x \<Rightarrow> append_group sample_lookup rnk rest (ranks @ [(rnk, x)]))"

text \<open>Lines 288-296: the loop over \<^verbatim>\<open>enumerate(request.ordered_sample_ids)\<close>.\<close>

fun expand_ranks ::
  "(uuid \<Rightarrow> Sample option) \<Rightarrow> nat \<Rightarrow> ranked list \<Rightarrow> (nat \<times> Sample) list
     \<Rightarrow> error + (nat \<times> Sample) list" where
  "expand_ranks sample_lookup idx [] ranks = Inr ranks"
| "expand_ranks sample_lookup idx (Single sample_or_samples # rest) ranks =
     (case sample_lookup sample_or_samples of
        None \<Rightarrow> Inl KeyError
      | Some x \<Rightarrow> expand_ranks sample_lookup (idx + 1) rest (ranks @ [(idx + 1, x)]))"
| "expand_ranks sample_lookup idx (Group sample_or_samples # rest) ranks =
     (case append_group sample_lookup (idx + 1) sample_or_samples ranks of
        Inl e \<Rightarrow> Inl e
      | Inr ranks' \<Rightarrow> expand_ranks sample_lookup (idx + 1) rest ranks')"

text \<open>Lines 304-309: the first truthy test set id of the two samples.\<close>

definition derive_test_set_id :: "Sample \<Rightarrow> Sample \<Rightarrow> int option" where
  "derive_test_set_id sample_1 sample_2 =
     (if truthy_int (Sample_test_set_id sample_1) then Sample_test_set_id sample_1
      else if truthy_int (Sample_test_set_id sample_2) then Sample_test_set_id sample_2
      else None)"

text \<open>Lines 314-322: the Comparison row, numbered by the sequence at the flush.\<close>

definition add_comparison ::
  "int option \<Rightarrow> int \<Rightarrow> int option \<Rightarrow> int \<Rightarrow> int \<Rightarrow> state \<Rightarrow> int \<times> state" where
  "add_comparison uid mid tsid session_id identification_token_id s =
     (let d = db s;
          i = comparison_id_seq d + 1;
          comparison = \<lparr>Comparison_id = i, Comparison_user_id = uid,
            Comparison_metric_id = mid, Comparison_test_set_id = tsid,
            Comparison_session_id = session_id,
            Comparison_identification_token_id = identification_token_id\<rparr>
      in (i, log_db Insert_Comparison
               (s\<lparr>db := d\<lparr>comparison_tbl := comparison_tbl d @ [comparison],
                            comparison_id_seq := i\<rparr>\<rparr>)))"

text \<open>Lines 325-332: one ComparisonRank row for each element of \<open>ranks\<close>.\<close>

fun add_ranks :: "int \<Rightarrow> (nat \<times> Sample) list \<Rightarrow> state \<Rightarrow> state" where
  "add_ranks cid [] s = s"
| "add_ranks cid ((rnk, x) # rest) s =
     add_ranks cid rest
       (log_db Insert_ComparisonRank
          (s\<lparr>db := (db s)\<lparr>comparison_rank_tbl := comparison_rank_tbl (db s) @
             [\<lparr>ComparisonRank_comparison_id = cid,
               ComparisonRank_sample_id = Sample_id x,
               ComparisonRank_rank = rnk\<rparr>]\<rparr>\<rparr>))"

text \<open>Lines 334-339: the recompute trigger, and the key of its lock.\<close>

definition elo_calculation_in_progress :: string where
  "elo_calculation_in_progress = ''elo_calculation_in_progress''"

definition trigger_elo :: "state \<Rightarrow> state" where
  "trigger_elo s =
     (case redis_set_ex_nx (now s) elo_calculation_in_progress ''1'' 300 (redis s) of
        (True, r) \<Rightarrow> s\<lparr>redis := r, celery := celery s @ [''elo_calculation'']\<rparr>
      | (False, r) \<Rightarrow> s\<lparr>redis := r\<rparr>)"

text \<open>Lines 274-345: what follows a token that was found.\<close>

definition record_vote ::
  "env \<Rightarrow> UserComparisonRequest \<Rightarrow> User option \<times> bool \<times> int \<times> int \<Rightarrow> string \<Rightarrow> state
     \<Rightarrow> (error + vote_response) \<times> state" where
  "record_vote env request caller token_data s =
     (case caller of (user, can_vote, session_id, identification_token_id) \<Rightarrow>
     (case parse_token_data env token_data of
        Inl e \<Rightarrow> (Inl e, s)
      | Inr (metric_id, sample_1_id, sample_2_id) \<Rightarrow>
          (let s1 = log_db (Select_Sample [sample_1_id, sample_2_id]) s;
               samples = filter (\<lambda>x. Sample_comparison_sample_id x \<in> set [sample_1_id, sample_2_id])
                           (sample_tbl (db s1));
               sample_lookup = sample_lookup_of samples
           in case sample_lookup sample_1_id of
                None \<Rightarrow> (Inl KeyError, s1)
              | Some sample_1 \<Rightarrow>
           (case sample_lookup sample_2_id of
                None \<Rightarrow> (Inl KeyError, s1)
              | Some sample_2 \<Rightarrow>
           (case expand_ranks sample_lookup 0 (ordered_sample_ids request) [] of
                Inl e \<Rightarrow> (Inl e, s1)
              | Inr ranks \<Rightarrow>
             (let s2 = log_db (Select_Metric metric_id) s1;
                  metric = scalar (\<lambda>m. Metric_external_id m = metric_id) (metric_tbl (db s2));
                  test_set_id = derive_test_set_id sample_1 sample_2;
                  reply = \<lparr>sample_1_model = Sample_run_model_name sample_1,
                           sample_2_model = Sample_run_model_name sample_2\<rparr>
              in if can_vote then
                   (case metric of
                      None \<Rightarrow> (Inl AttributeError, s2)
                    | Some m \<Rightarrow>
                        (let (cid, s3) = add_comparison (map_option User_id user) (Metric_id m)
                                           test_set_id session_id identification_token_id s2;
                             s4 = add_ranks cid ranks s3;
                             s5 = trigger_elo s4
                         in (Inr reply, s5)))
                 else (Inr reply, s2)))))))"

text \<open>
  The handler. Lines 266-272: the token is read and deleted in one cache command; a
  missing or empty value is the 404.
\<close>

definition post_comparison ::
  "env \<Rightarrow> UserComparisonRequest \<Rightarrow> request_obj \<Rightarrow> string option \<Rightarrow> state
     \<Rightarrow> (error + vote_response) \<times> state" where
  "post_comparison env request request_obj user_uuid s =
     (case resolve_caller env request_obj user_uuid s of
        (Inl e, s1) \<Rightarrow> (Inl e, s1)
      | (Inr caller, s1) \<Rightarrow>
          (let key = active_comparison (comparison_details_token request);
               (token_data, r) = redis_getdel (now s1) key (redis s1);
               s2 = s1\<lparr>redis := r\<rparr>
           in case token_data of
                None \<Rightarrow> (Inl (HTTPException 404 ''No active comparisons found''), s2)
              | Some v \<Rightarrow>
                  if v = [] then (Inl (HTTPException 404 ''No active comparisons found''), s2)
                  else record_vote env request caller v s2))"

subsection \<open>Batch issuance: \<^verbatim>\<open>get_comparison_batch\<close>\<close>

record NewComparisonBatchRequest =
  request_batch_size :: int
  request_metric_id :: string

record FileRef =
  file_kind :: string
  file_bucket :: string
  file_key :: string

record Asset =
  asset_sample_id :: string
  asset_files :: "FileRef list"

record ComparisonToken =
  entry_token :: string
  entry_metric_id :: string
  entry_samples :: "string list"
  entry_build_description :: string
  entry_assets :: "Asset list"

record ComparisonBatchResponse =
  comparisons :: "ComparisonToken list"

text \<open>\<^verbatim>\<open>uuid.uuid4()\<close>: the next draw.\<close>

definition uuid4 :: "env \<Rightarrow> state \<Rightarrow> string \<times> state" where
  "uuid4 env s = (uuid_uuid4 env (uuid4_calls s), s\<lparr>uuid4_calls := uuid4_calls s + 1\<rparr>)"

text \<open>
  Lines 196-235: the token of one pair. The token is drawn, the value
  \<^verbatim>\<open>f"{metric.external_id}:{sample_1_id}:{sample_2_id}"\<close> is stored under its key
  for 3600 seconds, and the entry of the response is built.
\<close>

definition issue_token :: "env \<Rightarrow> Metric \<Rightarrow> Row \<Rightarrow> state \<Rightarrow> ComparisonToken \<times> state" where
  "issue_token env metric row s =
     (let sample_1_id = row ! 0;
          sample_1_key = row ! 1;
          sample_2_id = row ! 2;
          sample_2_key = row ! 3;
          build_specification = row ! 4;
          (token, s1) = uuid4 env s;
          s2 = s1\<lparr>redis := redis_setex (now s1) (active_comparison token) 3600
                  (Metric_external_id metric @ '':'' @ sample_1_id @ '':'' @ sample_2_id)
                  (redis s1)\<rparr>;
          assets =
            [\<lparr>asset_sample_id = sample_1_id,
              asset_files = [\<lparr>file_kind = ''gltf_scene'',
                file_bucket = EXTERNAL_OBJECT_BUCKET env, file_key = sample_1_key\<rparr>]\<rparr>,
             \<lparr>asset_sample_id = sample_2_id,
              asset_files = [\<lparr>file_kind = ''gltf_scene'',
                file_bucket = EXTERNAL_OBJECT_BUCKET env, file_key = sample_2_key\<rparr>]\<rparr>]
      in (\<lparr>entry_token = token,
           entry_metric_id = Metric_external_id metric,
           entry_samples = [sample_1_id, sample_2_id],
           entry_build_description = build_specification,
           entry_assets = assets\<rparr>, s2))"

text \<open>
  Lines 148-235: the loop over the rows of the plan. A row is the list of its columns
  as strings; reading one of the first five columns of a shorter row raises IndexError.
  Under the priority strategy a row of fewer than 11 columns is skipped, and the
  average vote count is read for the log line only (its failure is caught).
\<close>

fun batch_rows ::
  "env \<Rightarrow> Metric \<Rightarrow> int \<Rightarrow> Row list \<Rightarrow> ComparisonToken list \<Rightarrow> state
     \<Rightarrow> (error + ComparisonToken list) \<times> state" where
  "batch_rows env metric test_set_id [] comparison_tokens s = (Inr comparison_tokens, s)"
| "batch_rows env metric test_set_id (row # rest) comparison_tokens s =
     (if length row < 5 then (Inl IndexError, s)
      else if USE_PRIORITY_COMPARISON env \<and> length row < 11
      then batch_rows env metric test_set_id rest comparison_tokens s
      else
        (let s1 = (if USE_PRIORITY_COMPARISON env
                   then log_db (Select_avg_vote_count test_set_id) s else s);
             (entry, s2) = issue_token env metric row s1
         in batch_rows env metric test_set_id rest (comparison_tokens @ [entry]) s2))"

text \<open>Lines 123-129: the name of the prepared statement the feature flag selects.\<close>

definition query_name_of :: "env \<Rightarrow> string" where
  "query_name_of env =
     (if USE_PRIORITY_COMPARISON env then ''comparison_batch_query_priority''
      else ''comparison_batch_query'')"

text \<open>Lines 103-238: what follows the test set and the session headers.\<close>

definition batch_for_test_set ::
  "env \<Rightarrow> 'a NewComparisonBatchRequest_scheme \<Rightarrow> int \<Rightarrow> state
     \<Rightarrow> (error + ComparisonBatchResponse) \<times> state" where
  "batch_for_test_set env request test_set_id s =
     (if request_batch_size request > MAX_BATCH_SIZE
      then (Inl (HTTPException 406 ''Invalid batch size''), s)
      else
        (let s1 = log_db (Select_Metric (request_metric_id request)) s in
         case scalar (\<lambda>m. Metric_external_id m = request_metric_id request)
                (metric_tbl (db s1)) of
           None \<Rightarrow> (Inl (HTTPException 400 ''Invalid metric id''), s1)
         | Some metric \<Rightarrow>
             (let query_name = query_name_of env;
                  s2 = log_db (Execute query_name test_set_id (request_batch_size request)) s1
              in case db_execute env query_name test_set_id (request_batch_size request)
                        (db s2) of
                   None \<Rightarrow>
                     (Inl (HTTPException 500
                        (''Failed to retrieve comparison batch using '' @ [CHR 0x27] @
                           query_name @ [CHR 0x27])), s2)
                 | Some sample_data \<Rightarrow>
                     (case batch_rows env metric test_set_id sample_data [] s2 of
                        (Inl e, s3) \<Rightarrow> (Inl e, s3)
                      | (Inr comparison_tokens, s3) \<Rightarrow>
                          (Inr \<lparr>comparisons = comparison_tokens\<rparr>, s3)))))"

text \<open>
  The handler. Lines 80-101: the test set comes from the fixed name that goes with the
  caller's authentication state. Of the request the handler reads the batch size and
  the metric id; whatever else the transport type carries is the record's extension.
\<close>

definition get_comparison_batch ::
  "env \<Rightarrow> 'a NewComparisonBatchRequest_scheme \<Rightarrow> request_obj \<Rightarrow> string option \<Rightarrow> state
     \<Rightarrow> (error + ComparisonBatchResponse) \<times> state" where
  "get_comparison_batch env request request_obj user_id s =
     (case user_id of
        None \<Rightarrow>
          (let s1 = log_db (Select_TestSet_id ''Unauthenticated Test Set'') s in
           case scalar (\<lambda>t. TestSet_name t = ''Unauthenticated Test Set'')
                  (test_set_tbl (db s1)) of
             None \<Rightarrow>
               (Inl (HTTPException 500 ''Default unauthenticated test set not found''), s1)
           | Some t \<Rightarrow>
               (let test_set_id = TestSet_id t;
                    (session_id, identification_token_id) =
                      process_session_headers env request_obj (db s1) None;
                    s2 = log_db Process_session_headers s1
                in batch_for_test_set env request test_set_id s2))
      | Some u \<Rightarrow>
          (let s1 = log_db (Select_TestSet_id ''Authenticated Test Set'') s in
           case scalar (\<lambda>t. TestSet_name t = ''Authenticated Test Set'')
                  (test_set_tbl (db s1)) of
             None \<Rightarrow>
               (Inl (HTTPException 500 ''Default authenticated test set not found''), s1)
           | Some t \<Rightarrow>
               (let test_set_id = TestSet_id t;
                    s2 = log_db (Select_User u) s1
                in case scalar (\<lambda>x. User_external_id x = u) (user_tbl (db s2)) of
                     None \<Rightarrow> (Inl (HTTPException 404 ''Authenticated user not found''), s2)
                   | Some user \<Rightarrow>
                       (let (session_id, identification_token_id) =
                              process_session_headers env request_obj (db s2) (Some user);
                            s3 = log_db Process_session_headers s2
                        in batch_for_test_set env request test_set_id s3))))"

subsection \<open>Runs of requests\<close>

text \<open>
  A run is a sequence of batch requests, vote submissions and lapses of time, each
  taking effect on the state the one before left.
\<close>

datatype event =
    Batch NewComparisonBatchRequest request_obj "string option"
  | Vote UserComparisonRequest request_obj "string option"
  | Elapse nat

fun step :: "env \<Rightarrow> event \<Rightarrow> state \<Rightarrow> state" where
  "step env (Batch request request_obj user_id) s =
     snd (get_comparison_batch env request request_obj user_id s)"
| "step env (Vote request request_obj user_uuid) s =
     snd (post_comparison env request request_obj user_uuid s)"
| "step env (Elapse n) s = s\<lparr>now := now s + n\<rparr>"

definition run :: "env \<Rightarrow> event list \<Rightarrow> state \<Rightarrow> state" where
  "run env evs s = fold (step env) evs s"

fun elapsed :: "event list \<Rightarrow> nat" where
  "elapsed [] = 0"
| "elapsed (Elapse n # evs) = n + elapsed evs"
| "elapsed (e # evs) = elapsed evs"

subsection \<open>Vocabulary of the properties\<close>

text \<open>
  The caller of a vote submission resolves: it is anonymous (no user id, or an empty
  one), or exactly one user row carries its external id, so that \<^verbatim>\<open>.one()\<close> returns.
\<close>

definition caller_known :: "string option \<Rightarrow> db \<Rightarrow> bool" where
  "caller_known user_uuid d =
     (case user_uuid of
        None \<Rightarrow> True
      | Some u \<Rightarrow> u = [] \<or> length (filter (\<lambda>x. User_external_id x = u) (user_tbl d)) = 1)"

text \<open>
  The caller passes the eligibility gate: it is anonymous, or its one user row has the
  voting scope.
\<close>

definition may_vote :: "env \<Rightarrow> string option \<Rightarrow> db \<Rightarrow> bool" where
  "may_vote env user_uuid d =
     (case user_uuid of
        None \<Rightarrow> True
      | Some u \<Rightarrow>
          u = [] \<or>
          (case filter (\<lambda>x. User_external_id x = u) (user_tbl d) of
             [user] \<Rightarrow> PERM_VOTING_VOTE env \<in> set (User_scopes user)
           | _ \<Rightarrow> False))"

text \<open>
  No later draw of \<^verbatim>\<open>uuid4\<close> is the token \<open>t\<close>: tokens do not collide.
\<close>

definition never_drawn_again :: "env \<Rightarrow> string \<Rightarrow> state \<Rightarrow> bool" where
  "never_drawn_again env t s = (\<forall>n\<ge>uuid4_calls s. uuid_uuid4 env n \<noteq> t)"

text \<open>
  The number of submissions of the token \<open>t\<close> in a run that succeed (the response is
  the 200).
\<close>

fun successes :: "env \<Rightarrow> string \<Rightarrow> event list \<Rightarrow> state \<Rightarrow> nat" where
  "successes env t [] s = 0"
| "successes env t (Vote request request_obj user_uuid # evs) s =
     (if comparison_details_token request = t
         \<and> isl (fst (post_comparison env request request_obj user_uuid s)) = False
      then 1 else 0)
     + successes env t evs (step env (Vote request request_obj user_uuid) s)"
| "successes env t (e # evs) s = successes env t evs (step env e s)"

text \<open>
  A submission is valid in a state: its token is in the cache and not expired, the
  stored value reads back as a metric id and two sample ids, both samples are in the
  store (\<open>sample_1\<close>, \<open>sample_2\<close>), every id of the ranking is one of theirs (the
  expansion is \<open>ranks\<close>) and the metric is in the store (\<open>m\<close>).
\<close>

definition valid_vote ::
  "env \<Rightarrow> UserComparisonRequest \<Rightarrow> state \<Rightarrow> Sample \<Rightarrow> Sample \<Rightarrow> (nat \<times> Sample) list
     \<Rightarrow> Metric \<Rightarrow> bool" where
  "valid_vote env request s sample_1 sample_2 ranks m =
     (case redis_get (now s) (redis s) (active_comparison (comparison_details_token request)) of
        None \<Rightarrow> False
      | Some v \<Rightarrow>
          v \<noteq> [] \<and>
          (case parse_token_data env v of
             Inl e \<Rightarrow> False
           | Inr (metric_id, sample_1_id, sample_2_id) \<Rightarrow>
               (let sample_lookup = sample_lookup_of
                      (filter (\<lambda>x. Sample_comparison_sample_id x \<in> set [sample_1_id, sample_2_id])
                         (sample_tbl (db s)))
                in sample_lookup sample_1_id = Some sample_1
                   \<and> sample_lookup sample_2_id = Some sample_2
                   \<and> expand_ranks sample_lookup 0 (ordered_sample_ids request) [] = Inr ranks
                   \<and> scalar (\<lambda>m. Metric_external_id m = metric_id) (metric_tbl (db s)) = Some m)))"

text \<open>
  The metric a submission's token names is in the store (or the token names none: it
  is not in the cache, has expired, or its value does not read back).
\<close>

definition token_metric_found :: "env \<Rightarrow> UserComparisonRequest \<Rightarrow> state \<Rightarrow> bool" where
  "token_metric_found env request s =
     (case redis_get (now s) (redis s) (active_comparison (comparison_details_token request)) of
        None \<Rightarrow> True
      | Some v \<Rightarrow>
          (case parse_token_data env v of
             Inl e \<Rightarrow> True
           | Inr (metric_id, sample_1_id, sample_2_id) \<Rightarrow>
               scalar (\<lambda>m. Metric_external_id m = metric_id) (metric_tbl (db s)) \<noteq> None))"

text \<open>
  The body of the 200 response: the two model names.
\<close>

definition reply_of :: "Sample \<Rightarrow> Sample \<Rightarrow> vote_response" where
  "reply_of sample_1 sample_2 =
     \<lparr>sample_1_model = Sample_run_model_name sample_1,
      sample_2_model = Sample_run_model_name sample_2\<rparr>"

text \<open>
  The Comparison row a vote adds to the store of \<open>s\<close>, and the ComparisonRank row of
  one element of \<open>ranks\<close>.
\<close>

definition comparison_row ::
  "state \<Rightarrow> User option \<Rightarrow> Metric \<Rightarrow> Sample \<Rightarrow> Sample \<Rightarrow> int \<Rightarrow> int \<Rightarrow> Comparison" where
  "comparison_row s user m sample_1 sample_2 session_id identification_token_id =
     \<lparr>Comparison_id = comparison_id_seq (db s) + 1,
      Comparison_user_id = map_option User_id user,
      Comparison_metric_id = Metric_id m,
      Comparison_test_set_id = derive_test_set_id sample_1 sample_2,
      Comparison_session_id = session_id,
      Comparison_identification_token_id = identification_token_id\<rparr>"

definition rank_row :: "int \<Rightarrow> nat \<times> Sample \<Rightarrow> ComparisonRank" where
  "rank_row cid p =
     \<lparr>ComparisonRank_comparison_id = cid, ComparisonRank_sample_id = Sample_id (snd p),
      ComparisonRank_rank = fst p\<rparr>"

text \<open>
  The state in which the vote is recorded: the caller resolved, the token deleted.
\<close>

definition redeemed :: "UserComparisonRequest \<Rightarrow> state \<Rightarrow> state \<Rightarrow> state" where
  "redeemed request s s1 =
     s1\<lparr>redis := (redis s)(active_comparison (comparison_details_token request) := None)\<rparr>"

text \<open>
  The ranking as the specification words it: the 1-based position of an element of
  \<^verbatim>\<open>ordered_sample_ids\<close> is the rank of the sample, or of every sample of the tie
  group, that stands there.
\<close>

primrec members :: "ranked \<Rightarrow> uuid list" where
  "members (Single x) = [x]"
| "members (Group xs) = xs"

definition ranking_by_position :: "ranked list \<Rightarrow> (nat \<times> uuid) list" where
  "ranking_by_position xs =
     concat (map (\<lambda>(i, e). map (\<lambda>sid. (i + 1, sid)) (members e)) (enumerate 0 xs))"

text \<open>
  The recompute lock is in the cache and will still be there \<open>n\<close> seconds from now.
\<close>

definition lock_held_for :: "nat \<Rightarrow> state \<Rightarrow> bool" where
  "lock_held_for n s =
     (case redis s elo_calculation_in_progress of
        None \<Rightarrow> False
      | Some (v, None) \<Rightarrow> True
      | Some (v, Some d) \<Rightarrow> now s + n < d)"


text \<open>
  What lines 80-101 of the batch handler look up: the name of the default test set that
  goes with the caller's authentication state, its row, whether the row of an
  authenticated caller exists, and the storage accesses these lines perform.
\<close>

definition default_test_set_name :: "string option \<Rightarrow> string" where
  "default_test_set_name user_id =
     (case user_id of
        None \<Rightarrow> ''Unauthenticated Test Set''
      | Some u \<Rightarrow> ''Authenticated Test Set'')"

definition default_test_set :: "string option \<Rightarrow> db \<Rightarrow> TestSet option" where
  "default_test_set user_id d =
     scalar (\<lambda>t. TestSet_name t = default_test_set_name user_id) (test_set_tbl d)"

definition batch_user_found :: "string option \<Rightarrow> db \<Rightarrow> bool" where
  "batch_user_found user_id d =
     (case user_id of
        None \<Rightarrow> True
      | Some u \<Rightarrow> scalar (\<lambda>x. User_external_id x = u) (user_tbl d) \<noteq> None)"

definition preamble :: "string option \<Rightarrow> db \<Rightarrow> db_op list" where
  "preamble user_id d =
     Select_TestSet_id (default_test_set_name user_id) #
     (case default_test_set user_id d of
        None \<Rightarrow> []
      | Some t \<Rightarrow>
          (case user_id of
             None \<Rightarrow> [Process_session_headers]
           | Some u \<Rightarrow>
               Select_User u #
               (if batch_user_found user_id d then [Process_session_headers] else [])))"

text \<open>
  The error of a missing default test set, and the status code of a response: an
  exception the handler leaves uncaught is a 500.
\<close>

definition test_set_not_found :: "string option \<Rightarrow> error" where
  "test_set_not_found user_id =
     HTTPException 500
       (case user_id of
          None \<Rightarrow> ''Default unauthenticated test set not found''
        | Some u \<Rightarrow> ''Default authenticated test set not found'')"

definition status_code :: "error + 'a \<Rightarrow> nat" where
  "status_code r =
     (case r of
        Inl (HTTPException code detail) \<Rightarrow> code
      | Inl _ \<Rightarrow> 500
      | Inr _ \<Rightarrow> 200)"

subsection \<open>A small installation\<close>

text \<open>
  A configuration with the random strategy, a store with the two default test sets,
  a user without the voting scope (\<open>alice\<close>) and one with it (\<open>bob\<close>), one metric and
  two samples; the random plan returns one pair, the priority plan fails.
\<close>

definition demo_env :: env where
  "demo_env =
     \<lparr>USE_PRIORITY_COMPARISON = False,
      EXTERNAL_OBJECT_BUCKET = ''bucket'',
      PERM_VOTING_VOTE = ''vote'',
      uuid_uuid4 = (\<lambda>n. replicate (Suc n) CHR ''t''),
      uuid_UUID = (\<lambda>x. if x = ''a'' then Some 1 else if x = ''b'' then Some 2
                         else if x = ''c'' then Some 3 else None),
      process_session_headers = (\<lambda>ro d u. (7, 9)),
      db_execute = (\<lambda>name tsid n d.
        if name = ''comparison_batch_query''
        then Some [[''a'', ''key-a'', ''b'', ''key-b'', ''a house'']] else None)\<rparr>"

definition demo_env_priority :: env where
  "demo_env_priority = demo_env\<lparr>USE_PRIORITY_COMPARISON := True\<rparr>"

definition demo_sample_a :: Sample where
  "demo_sample_a = \<lparr>Sample_id = 11, Sample_comparison_sample_id = 1,
                      Sample_test_set_id = Some 1, Sample_run_model_name = ''model-a''\<rparr>"

definition demo_sample_b :: Sample where
  "demo_sample_b = \<lparr>Sample_id = 12, Sample_comparison_sample_id = 2,
                      Sample_test_set_id = Some 1, Sample_run_model_name = ''model-b''\<rparr>"

definition demo_db :: db where
  "demo_db =
     \<lparr>test_set_tbl = [\<lparr>TestSet_id = 1, TestSet_name = ''Unauthenticated Test Set''\<rparr>,
                      \<lparr>TestSet_id = 2, TestSet_name = ''Authenticated Test Set''\<rparr>],
      user_tbl = [\<lparr>User_id = 5, User_external_id = ''alice'', User_scopes = []\<rparr>,
                  \<lparr>User_id = 6, User_external_id = ''bob'', User_scopes = [''vote'']\<rparr>],
      metric_tbl = [\<lparr>Metric_id = 4, Metric_external_id = ''m''\<rparr>],
      sample_tbl = [\<lparr>Sample_id = 11, Sample_comparison_sample_id = 1,
                      Sample_test_set_id = Some 1, Sample_run_model_name = ''model-a''\<rparr>,
                    \<lparr>Sample_id = 12, Sample_comparison_sample_id = 2,
                      Sample_test_set_id = Some 1, Sample_run_model_name = ''model-b''\<rparr>],
      comparison_tbl = [],
      comparison_rank_tbl = [],
      comparison_id_seq = 0\<rparr>"

text \<open>
  Two tokens, \<open>t\<close> and \<open>v\<close>, issued at time 0 for the metric \<open>m\<close> and the samples
  \<open>a\<close> and \<open>b\<close>; a third one, \<open>u\<close>, names a sample \<open>c\<close> that the store does not hold.
\<close>

definition demo_state :: state where
  "demo_state =
     \<lparr>db = demo_db,
      db_log = [],
      redis = [active_comparison ''t'' \<mapsto> (''m:a:b'', Some 3600),
               active_comparison ''u'' \<mapsto> (''m:a:c'', Some 3600),
               active_comparison ''v'' \<mapsto> (''m:b:a'', Some 3600)],
      now = 0,
      celery = [],
      uuid4_calls = 1\<rparr>"

definition demo_state_no_test_set :: state where
  "demo_state_no_test_set = demo_state\<lparr>db := demo_db\<lparr>test_set_tbl := []\<rparr>\<rparr>"

text \<open>
  The same state with a fourth token, \<open>q\<close>, whose metric \<open>z\<close> the store does not hold,
  and a submission of it.
\<close>

definition demo_state_q :: state where
  "demo_state_q =
     demo_state\<lparr>redis := (redis demo_state)(active_comparison ''q'' \<mapsto> (''z:a:b'', Some 3600))\<rparr>"

definition demo_vote_q :: UserComparisonRequest where
  "demo_vote_q = \<lparr>comparison_details_token = ''q'', ordered_sample_ids = [Single 1, Single 2]\<rparr>"

text \<open>
  Vote submissions: a strict order and a tie on the token \<open>t\<close>, a strict order on
  \<open>v\<close>, and one on \<open>u\<close>.
\<close>

definition demo_vote :: UserComparisonRequest where
  "demo_vote = \<lparr>comparison_details_token = ''t'', ordered_sample_ids = [Single 1, Single 2]\<rparr>"

definition demo_tie :: UserComparisonRequest where
  "demo_tie = \<lparr>comparison_details_token = ''t'', ordered_sample_ids = [Group [1, 2]]\<rparr>"

definition demo_vote_v :: UserComparisonRequest where
  "demo_vote_v = \<lparr>comparison_details_token = ''v'', ordered_sample_ids = [Single 1, Single 2]\<rparr>"

definition demo_vote_u :: UserComparisonRequest where
  "demo_vote_u = \<lparr>comparison_details_token = ''u'', ordered_sample_ids = [Single 1, Single 3]\<rparr>"

text \<open>
  Batch requests: one pair, eleven pairs, an unknown metric; and the entry the first
  one returns.
\<close>

definition demo_batch :: NewComparisonBatchRequest where
  "demo_batch = \<lparr>request_batch_size = 1, request_metric_id = ''m''\<rparr>"

definition demo_big :: NewComparisonBatchRequest where
  "demo_big = \<lparr>request_batch_size = 11, request_metric_id = ''m''\<rparr>"

definition demo_unknown_metric :: NewComparisonBatchRequest where
  "demo_unknown_metric = \<lparr>request_batch_size = 1, request_metric_id = ''z''\<rparr>"


section \<open>Properties of the model\<close>

subsection \<open>What a vote submission leaves unchanged\<close>

lemma log_db_simps [simp]:
  "db (log_db op s) = db s" "redis (log_db op s) = redis s" "now (log_db op s) = now s"
  "celery (log_db op s) = celery s" "uuid4_calls (log_db op s) = uuid4_calls s"
  "db_log (log_db op s) = db_log s @ [op]"
  by (simp_all add: log_db_def)

lemma resolve_caller_frame:
  assumes "resolve_caller env ro uu s = (r, s')"
  shows "db s' = db s \<and> redis s' = redis s \<and> now s' = now s \<and> celery s' = celery s
         \<and> uuid4_calls s' = uuid4_calls s"
  using assms
  by (auto simp: resolve_caller_def Let_def split: if_splits option.splits sum.splits prod.splits)

lemma one_length: "length (filter p rows) = 1 \<Longrightarrow> \<exists>x. one p rows = Inr x"
  by (cases "filter p rows") (auto simp: one_def split: list.splits)

lemma resolve_caller_known:
  assumes "caller_known uu (db s)"
  shows "\<exists>c s'. resolve_caller env ro uu s = (Inr c, s')"
proof (cases "truthy_str uu")
  case False
  then show ?thesis
    by (auto simp: resolve_caller_def Let_def split: prod.splits)
next
  case True
  then obtain u where u: "uu = Some u" "u \<noteq> []"
    by (auto simp: truthy_str_def split: option.splits)
  with assms have "length (filter (\<lambda>x. User_external_id x = u) (user_tbl (db s))) = 1"
    by (simp add: caller_known_def)
  from one_length [OF this] obtain x where
    "one (\<lambda>x. User_external_id x = u) (user_tbl (db s)) = Inr x" by blast
  with u True show ?thesis
    by (auto simp: resolve_caller_def Let_def split: prod.splits)
qed

lemma add_ranks_frame [simp]:
  "redis (add_ranks cid ranks s) = redis s"
  "now (add_ranks cid ranks s) = now s"
  "celery (add_ranks cid ranks s) = celery s"
  "uuid4_calls (add_ranks cid ranks s) = uuid4_calls s"
  by (induction cid ranks s rule: add_ranks.induct; simp)+

lemma add_ranks_db:
  "db (add_ranks cid ranks s) =
     (db s)\<lparr>comparison_rank_tbl := comparison_rank_tbl (db s) @ map (rank_row cid) ranks\<rparr>"
  by (induction cid ranks s rule: add_ranks.induct) (simp_all add: rank_row_def)

lemma trigger_elo_frame [simp]:
  "db (trigger_elo s) = db s" "now (trigger_elo s) = now s"
  "uuid4_calls (trigger_elo s) = uuid4_calls s"
  by (simp_all add: trigger_elo_def redis_set_ex_nx_def split: option.splits)

lemma trigger_elo_redis:
  "k \<noteq> elo_calculation_in_progress \<Longrightarrow> redis (trigger_elo s) k = redis s k"
  by (simp add: trigger_elo_def redis_set_ex_nx_def split: option.splits)

lemma trigger_elo_celery:
  "celery (trigger_elo s) =
     (if redis_get (now s) (redis s) elo_calculation_in_progress = None
      then celery s @ [''elo_calculation''] else celery s)"
  by (simp add: trigger_elo_def redis_set_ex_nx_def split: option.splits)

lemma add_comparison_frame [simp]:
  "redis (snd (add_comparison a b c d e s)) = redis s"
  "now (snd (add_comparison a b c d e s)) = now s"
  "celery (snd (add_comparison a b c d e s)) = celery s"
  "uuid4_calls (snd (add_comparison a b c d e s)) = uuid4_calls s"
  by (simp_all add: add_comparison_def Let_def)

lemma record_vote_frame [simp]:
  "now (snd (record_vote env request caller v s)) = now s"
  "uuid4_calls (snd (record_vote env request caller v s)) = uuid4_calls s"
  "user_tbl (db (snd (record_vote env request caller v s))) = user_tbl (db s)"
  by (auto simp: record_vote_def Let_def add_ranks_db add_comparison_def
      split: prod.splits sum.splits option.splits if_splits)

lemma record_vote_redis:
  "k \<noteq> elo_calculation_in_progress \<Longrightarrow>
     redis (snd (record_vote env request caller v s)) k = redis s k"
  by (auto simp: record_vote_def Let_def trigger_elo_redis add_comparison_def
      split: prod.splits sum.splits option.splits if_splits)

lemma active_comparison_inj [simp]: "(active_comparison a = active_comparison b) = (a = b)"
  by (simp add: active_comparison_def)

lemma active_comparison_not_lock [simp]:
  "active_comparison a \<noteq> elo_calculation_in_progress"
  "elo_calculation_in_progress \<noteq> active_comparison a"
  by (simp_all add: active_comparison_def elo_calculation_in_progress_def)

lemma redeemed_simps [simp]:
  "redis (redeemed request s s1) = (redis s)(active_comparison (comparison_details_token request) := None)"
  "db (redeemed request s s1) = db s1" "now (redeemed request s s1) = now s1"
  "celery (redeemed request s s1) = celery s1" "uuid4_calls (redeemed request s s1) = uuid4_calls s1"
  "db_log (redeemed request s s1) = db_log s1"
  by (simp_all add: redeemed_def)

lemma post_comparison_unfold:
  assumes "resolve_caller env ro uu s = (Inr c, s1)"
  shows "post_comparison env request ro uu s =
     (case redis_get (now s) (redis s) (active_comparison (comparison_details_token request)) of
        None \<Rightarrow> (Inl (HTTPException 404 ''No active comparisons found''), redeemed request s s1)
      | Some v \<Rightarrow>
          if v = [] then (Inl (HTTPException 404 ''No active comparisons found''),
                          redeemed request s s1)
          else record_vote env request c v (redeemed request s s1))"
  using assms resolve_caller_frame [OF assms]
  by (simp add: post_comparison_def redis_getdel_def Let_def redeemed_def split: option.splits)

lemma post_comparison_failed_caller:
  assumes "resolve_caller env ro uu s = (Inl e, s1)"
  shows "post_comparison env request ro uu s = (Inl e, s1)"
  using assms by (simp add: post_comparison_def)

lemma post_comparison_spent:
  assumes "caller_known uu (db s)"
  shows "redis (snd (post_comparison env request ro uu s))
           (active_comparison (comparison_details_token request)) = None"
proof -
  from resolve_caller_known [OF assms] obtain c s1 where
    rc: "resolve_caller env ro uu s = (Inr c, s1)" by blast
  show ?thesis
    unfolding post_comparison_unfold [OF rc]
    by (simp add: record_vote_redis split: option.splits)
qed

lemma post_comparison_absent:
  assumes "caller_known uu (db s)"
      and "redis_get (now s) (redis s)
             (active_comparison (comparison_details_token request)) = None"
  shows "fst (post_comparison env request ro uu s) =
           Inl (HTTPException 404 ''No active comparisons found'')
         \<and> db (snd (post_comparison env request ro uu s)) = db s
         \<and> celery (snd (post_comparison env request ro uu s)) = celery s"
proof -
  from resolve_caller_known [OF assms(1)] obtain c s1 where
    rc: "resolve_caller env ro uu s = (Inr c, s1)" by blast
  from resolve_caller_frame [OF rc] assms(2) show ?thesis
    unfolding post_comparison_unfold [OF rc] by simp
qed

lemma post_comparison_frame [simp]:
  "now (snd (post_comparison env request ro uu s)) = now s"
  "uuid4_calls (snd (post_comparison env request ro uu s)) = uuid4_calls s"
  "user_tbl (db (snd (post_comparison env request ro uu s))) = user_tbl (db s)"
proof -
  obtain a s1 where rc: "resolve_caller env ro uu s = (a, s1)" by (cases "resolve_caller env ro uu s")
  note fr = resolve_caller_frame [OF rc]
  show "now (snd (post_comparison env request ro uu s)) = now s"
    "uuid4_calls (snd (post_comparison env request ro uu s)) = uuid4_calls s"
    "user_tbl (db (snd (post_comparison env request ro uu s))) = user_tbl (db s)"
    using fr rc
    by (cases a; simp add: post_comparison_unfold post_comparison_failed_caller split: option.splits)+
qed

lemma post_comparison_redis_None:
  assumes "k \<noteq> elo_calculation_in_progress" and "redis s k = None"
  shows "redis (snd (post_comparison env request ro uu s)) k = None"
proof -
  obtain a s1 where rc: "resolve_caller env ro uu s = (a, s1)" by (cases "resolve_caller env ro uu s")
  note fr = resolve_caller_frame [OF rc]
  show ?thesis
    using fr rc assms
    by (cases a; simp add: post_comparison_unfold post_comparison_failed_caller record_vote_redis
        split: option.splits)
qed

subsection \<open>What a batch request leaves unchanged\<close>

lemma issue_token_frame [simp]:
  "db (snd (issue_token env metric row s)) = db s"
  "celery (snd (issue_token env metric row s)) = celery s"
  "now (snd (issue_token env metric row s)) = now s"
  "uuid4_calls (snd (issue_token env metric row s)) = uuid4_calls s + 1"
  "db_log (snd (issue_token env metric row s)) = db_log s"
  by (simp_all add: issue_token_def uuid4_def Let_def)

lemma issue_token_redis:
  "redis (snd (issue_token env metric row s)) =
     (redis s)(active_comparison (uuid_uuid4 env (uuid4_calls s)) \<mapsto>
        (Metric_external_id metric @ '':'' @ row ! 0 @ '':'' @ row ! 2, Some (now s + 3600)))"
  by (simp add: issue_token_def uuid4_def Let_def redis_setex_def)


lemma batch_rows_frame_all:
  "db (snd (batch_rows env metric tsid rows toks s)) = db s
   \<and> celery (snd (batch_rows env metric tsid rows toks s)) = celery s
   \<and> now (snd (batch_rows env metric tsid rows toks s)) = now s
   \<and> uuid4_calls s \<le> uuid4_calls (snd (batch_rows env metric tsid rows toks s))"
proof (induction rows arbitrary: toks s)
  case Nil
  show ?case by simp
next
  case (Cons row rest)
  show ?case
    using Cons.IH [of toks s]
      Cons.IH [of "toks @ [fst (issue_token env metric row s)]" "snd (issue_token env metric row s)"]
      Cons.IH [of "toks @ [fst (issue_token env metric row (log_db (Select_avg_vote_count tsid) s))]"
         "snd (issue_token env metric row (log_db (Select_avg_vote_count tsid) s))"]
    by (simp add: Let_def case_prod_beta)
qed

lemma batch_rows_frame [simp]:
  "db (snd (batch_rows env metric tsid rows toks s)) = db s"
  "celery (snd (batch_rows env metric tsid rows toks s)) = celery s"
  "now (snd (batch_rows env metric tsid rows toks s)) = now s"
  "uuid4_calls s \<le> uuid4_calls (snd (batch_rows env metric tsid rows toks s))"
  using batch_rows_frame_all [of env metric tsid rows toks s] by simp_all

lemma batch_rows_redis:
  assumes "\<forall>n\<ge>uuid4_calls s. k \<noteq> active_comparison (uuid_uuid4 env n)"
  shows "redis (snd (batch_rows env metric tsid rows toks s)) k = redis s k"
  using assms
proof (induction rows arbitrary: toks s)
  case Nil
  show ?case by simp
next
  case (Cons row rest)
  have a: "redis (snd (batch_rows env metric tsid rest toks' (snd (issue_token env metric row s')))) k
           = redis s' k" if "uuid4_calls s' = uuid4_calls s" for s' toks'
  proof -
    have "redis (snd (batch_rows env metric tsid rest toks' (snd (issue_token env metric row s')))) k
          = redis (snd (issue_token env metric row s')) k"
      using Cons.prems that by (intro Cons.IH) simp
    also have "\<dots> = redis s' k"
      using Cons.prems that by (simp add: issue_token_redis)
    finally show ?thesis .
  qed
  show ?case
    using Cons.IH [of s toks, OF Cons.prems] a [of s] a [of "log_db (Select_avg_vote_count tsid) s"]
    by (simp add: Let_def case_prod_beta)
qed

lemma batch_for_test_set_frame [simp]:
  "db (snd (batch_for_test_set env request tsid s)) = db s"
  "celery (snd (batch_for_test_set env request tsid s)) = celery s"
  "now (snd (batch_for_test_set env request tsid s)) = now s"
  by (simp_all add: batch_for_test_set_def Let_def case_prod_beta split: option.splits sum.splits)

lemma batch_for_test_set_calls:
  "uuid4_calls s \<le> uuid4_calls (snd (batch_for_test_set env request tsid s))"
  using batch_rows_frame(4) [of "log_db (Execute (query_name_of env) tsid (request_batch_size request))
         (log_db (Select_Metric (request_metric_id request)) s)" env _ tsid _ "[]"]
  by (simp add: batch_for_test_set_def Let_def case_prod_beta split: option.splits sum.splits)

lemma batch_for_test_set_redis:
  assumes "\<forall>n\<ge>uuid4_calls s. k \<noteq> active_comparison (uuid_uuid4 env n)"
  shows "redis (snd (batch_for_test_set env request tsid s)) k = redis s k"
  using assms
  by (simp add: batch_for_test_set_def Let_def case_prod_beta batch_rows_redis
      split: option.splits sum.splits)

lemma get_comparison_batch_frame [simp]:
  "db (snd (get_comparison_batch env request ro uid s)) = db s"
  "celery (snd (get_comparison_batch env request ro uid s)) = celery s"
  "now (snd (get_comparison_batch env request ro uid s)) = now s"
  by (simp_all add: get_comparison_batch_def Let_def case_prod_beta split: option.splits)

lemma get_comparison_batch_calls:
  "uuid4_calls s \<le> uuid4_calls (snd (get_comparison_batch env request ro uid s))"
proof -
  have "uuid4_calls s' = uuid4_calls s \<Longrightarrow>
        uuid4_calls s \<le> uuid4_calls (snd (batch_for_test_set env request tsid s'))" for s' tsid
    using batch_for_test_set_calls [of s' env request tsid] by simp
  then show ?thesis
    by (simp add: get_comparison_batch_def Let_def case_prod_beta split: option.splits)
qed

lemma get_comparison_batch_redis:
  assumes "\<forall>n\<ge>uuid4_calls s. k \<noteq> active_comparison (uuid_uuid4 env n)"
  shows "redis (snd (get_comparison_batch env request ro uid s)) k = redis s k"
  using assms
  by (simp add: get_comparison_batch_def Let_def case_prod_beta batch_for_test_set_redis
      split: option.splits)

subsection \<open>A deleted token stays deleted\<close>

lemma step_spent:
  assumes "never_drawn_again env t s" and "redis s (active_comparison t) = None"
  shows "never_drawn_again env t (step env e s)
         \<and> redis (step env e s) (active_comparison t) = None
         \<and> user_tbl (db (step env e s)) = user_tbl (db s)"
proof (cases e)
  case (Batch request ro uid)
  have "\<forall>n\<ge>uuid4_calls s. active_comparison t \<noteq> active_comparison (uuid_uuid4 env n)"
    using assms(1) by (auto simp: never_drawn_again_def)
  from get_comparison_batch_redis [OF this, of request ro uid]
    get_comparison_batch_calls [of s env request ro uid] assms
  show ?thesis
    by (auto simp: Batch never_drawn_again_def)
next
  case (Vote request ro uu)
  with assms show ?thesis
    by (simp add: never_drawn_again_def post_comparison_redis_None)
next
  case (Elapse n)
  with assms show ?thesis by (simp add: never_drawn_again_def)
qed

lemma run_spent:
  assumes "never_drawn_again env t s" and "redis s (active_comparison t) = None"
  shows "never_drawn_again env t (run env evs s)
         \<and> redis (run env evs s) (active_comparison t) = None
         \<and> user_tbl (db (run env evs s)) = user_tbl (db s)"
  using assms
proof (induction evs arbitrary: s)
  case Nil
  then show ?case by (simp add: run_def)
next
  case (Cons e evs)
  from step_spent [OF Cons.prems, of e] Cons.IH [of "step env e s"]
  show ?case by (simp add: run_def)
qed

lemma caller_known_cong: "user_tbl d' = user_tbl d \<Longrightarrow> caller_known uu d' = caller_known uu d"
  by (simp add: caller_known_def split: option.splits)

lemma post_comparison_absent_fails:
  assumes "redis s (active_comparison (comparison_details_token request)) = None"
  shows "isl (fst (post_comparison env request ro uu s))"
proof -
  obtain a s1 where rc: "resolve_caller env ro uu s = (a, s1)" by (cases "resolve_caller env ro uu s")
  have "redis_get (now s) (redis s) (active_comparison (comparison_details_token request)) = None"
    using assms by (simp add: redis_get_def)
  with rc show ?thesis
    by (cases a) (simp_all add: post_comparison_unfold post_comparison_failed_caller)
qed

lemma post_comparison_success_spent:
  assumes "\<not> isl (fst (post_comparison env request ro uu s))"
  shows "redis (snd (post_comparison env request ro uu s))
           (active_comparison (comparison_details_token request)) = None"
proof -
  obtain a s1 where rc: "resolve_caller env ro uu s = (a, s1)" by (cases "resolve_caller env ro uu s")
  show ?thesis
  proof (cases a)
    case (Inl e)
    with rc assms show ?thesis by (simp add: post_comparison_failed_caller)
  next
    case (Inr c)
    with rc show ?thesis
      by (simp add: post_comparison_unfold record_vote_redis split: option.splits)
  qed
qed

lemma step_never_drawn_again:
  assumes "never_drawn_again env t s"
  shows "never_drawn_again env t (step env e s)"
proof (cases e)
  case (Batch request ro uid)
  with assms get_comparison_batch_calls [of s env request ro uid] show ?thesis
    by (auto simp: never_drawn_again_def)
next
  case (Vote request ro uu)
  with assms show ?thesis by (simp add: never_drawn_again_def)
next
  case (Elapse n)
  with assms show ?thesis by (simp add: never_drawn_again_def)
qed

lemma successes_spent:
  assumes "never_drawn_again env t s" and "redis s (active_comparison t) = None"
  shows "successes env t evs s = 0"
  using assms
proof (induction evs arbitrary: s)
  case Nil
  show ?case by simp
next
  case (Cons e evs)
  from step_spent [OF Cons.prems, of e]
  have IH: "successes env t evs (step env e s) = 0" by (intro Cons.IH) simp_all
  show ?case
  proof (cases e)
    case (Vote request ro uu)
    with IH Cons.prems(2) post_comparison_absent_fails [of s request env ro uu]
    show ?thesis by auto
  qed (use IH in simp_all)
qed

lemma successes_le_1:
  assumes "never_drawn_again env t s"
  shows "successes env t evs s \<le> 1"
  using assms
proof (induction evs arbitrary: s)
  case Nil
  show ?case by simp
next
  case (Cons e evs)
  note nd = step_never_drawn_again [OF Cons.prems, of e]
  note IH = Cons.IH [OF nd]
  show ?case
  proof (cases e)
    case (Vote request ro uu)
    show ?thesis
    proof (cases "comparison_details_token request = t
         \<and> isl (fst (post_comparison env request ro uu s)) = False")
      case True
      then have "redis (step env e s) (active_comparison t) = None"
        using post_comparison_success_spent [of env request ro uu s] Vote by auto
      from successes_spent [OF nd this, of evs] True Vote show ?thesis by simp
    next
      case False
      with IH Vote show ?thesis by auto
    qed
  qed (use IH in simp_all)
qed

subsection \<open>The outcome of a valid submission\<close>

lemma post_comparison_valid:
  assumes v: "valid_vote env request s sample_1 sample_2 ranks m"
      and rc: "resolve_caller env ro uu s = (Inr (user, can_vote, sid, itid), s1)"
  shows "fst (post_comparison env request ro uu s) = Inr (reply_of sample_1 sample_2)"
    and "db (snd (post_comparison env request ro uu s)) =
           (if can_vote then
              (db s)\<lparr>comparison_tbl := comparison_tbl (db s) @
                         [comparison_row s user m sample_1 sample_2 sid itid],
                      comparison_rank_tbl := comparison_rank_tbl (db s) @
                         map (rank_row (comparison_id_seq (db s) + 1)) ranks,
                      comparison_id_seq := comparison_id_seq (db s) + 1\<rparr>
            else db s)"
    and "celery (snd (post_comparison env request ro uu s)) =
           (if can_vote \<and> redis_get (now s) (redis s) elo_calculation_in_progress = None
            then celery s @ [''elo_calculation''] else celery s)"
    and "redis (snd (post_comparison env request ro uu s)) elo_calculation_in_progress =
           (if can_vote \<and> redis_get (now s) (redis s) elo_calculation_in_progress = None
            then Some (''1'', Some (now s + 300)) else redis s elo_calculation_in_progress)"
proof -
  note fr = resolve_caller_frame [OF rc]
  from v obtain tv metric_id sample_1_id sample_2_id where
    live: "redis_get (now s) (redis s) (active_comparison (comparison_details_token request)) = Some tv"
      "tv \<noteq> []"
    and parse: "parse_token_data env tv = Inr (metric_id, sample_1_id, sample_2_id)"
    and rest: "sample_lookup_of
                 (filter (\<lambda>x. Sample_comparison_sample_id x \<in> set [sample_1_id, sample_2_id])
                    (sample_tbl (db s))) sample_1_id = Some sample_1"
      "sample_lookup_of
                 (filter (\<lambda>x. Sample_comparison_sample_id x \<in> set [sample_1_id, sample_2_id])
                    (sample_tbl (db s))) sample_2_id = Some sample_2"
      "expand_ranks (sample_lookup_of
                 (filter (\<lambda>x. Sample_comparison_sample_id x \<in> set [sample_1_id, sample_2_id])
                    (sample_tbl (db s)))) 0 (ordered_sample_ids request) [] = Inr ranks"
      "scalar (\<lambda>m. Metric_external_id m = metric_id) (metric_tbl (db s)) = Some m"
    by (auto simp: valid_vote_def Let_def split: option.splits sum.splits)
  have pc: "post_comparison env request ro uu s =
              record_vote env request (user, can_vote, sid, itid) tv (redeemed request s s1)"
    using live by (simp add: post_comparison_unfold [OF rc])
  have lock: "redis_get (now s) ((redis s)(active_comparison (comparison_details_token request) := None))
                elo_calculation_in_progress = redis_get (now s) (redis s) elo_calculation_in_progress"
    by (simp add: redis_get_def)
  show "fst (post_comparison env request ro uu s) = Inr (reply_of sample_1 sample_2)"
    unfolding pc using parse rest fr
    by (simp add: record_vote_def Let_def case_prod_beta reply_of_def)
  show "db (snd (post_comparison env request ro uu s)) =
           (if can_vote then
              (db s)\<lparr>comparison_tbl := comparison_tbl (db s) @
                         [comparison_row s user m sample_1 sample_2 sid itid],
                      comparison_rank_tbl := comparison_rank_tbl (db s) @
                         map (rank_row (comparison_id_seq (db s) + 1)) ranks,
                      comparison_id_seq := comparison_id_seq (db s) + 1\<rparr>
            else db s)"
    unfolding pc using parse rest fr
    by (simp add: record_vote_def Let_def case_prod_beta add_ranks_db add_comparison_def
        comparison_row_def)
  show "celery (snd (post_comparison env request ro uu s)) =
           (if can_vote \<and> redis_get (now s) (redis s) elo_calculation_in_progress = None
            then celery s @ [''elo_calculation''] else celery s)"
    unfolding pc using parse rest fr lock
    by (simp add: record_vote_def Let_def case_prod_beta trigger_elo_celery)
  show "redis (snd (post_comparison env request ro uu s)) elo_calculation_in_progress =
           (if can_vote \<and> redis_get (now s) (redis s) elo_calculation_in_progress = None
            then Some (''1'', Some (now s + 300)) else redis s elo_calculation_in_progress)"
    unfolding pc using parse rest fr lock
    by (simp add: record_vote_def Let_def case_prod_beta trigger_elo_def redis_set_ex_nx_def
        split: option.splits)
qed

lemma resolve_caller_anonymous:
  assumes "\<not> truthy_str uu"
  shows "resolve_caller env ro uu s =
           (Inr (None, True, process_session_headers env ro (db s) None),
            log_db Process_session_headers s)"
  using assms by (simp add: resolve_caller_def Let_def case_prod_beta)

lemma resolve_caller_authenticated:
  assumes "filter (\<lambda>x. User_external_id x = u) (user_tbl (db s)) = [user]" and "u \<noteq> []"
  shows "resolve_caller env ro (Some u) s =
           (Inr (Some user, PERM_VOTING_VOTE env \<in> set (User_scopes user),
                 process_session_headers env ro (db s) (Some user)),
            log_db Process_session_headers (log_db (Select_User u) s))"
  using assms by (simp add: resolve_caller_def Let_def case_prod_beta truthy_str_def one_def)

lemma record_vote_ineligible:
  "db (snd (record_vote env request (user, False, sid, itid) v s)) = db s"
  "celery (snd (record_vote env request (user, False, sid, itid) v s)) = celery s"
  "redis (snd (record_vote env request (user, False, sid, itid) v s)) = redis s"
  by (simp_all add: record_vote_def Let_def split: sum.splits option.splits prod.splits)

lemma post_comparison_ineligible:
  assumes "resolve_caller env ro uu s = (Inr (user, False, sid, itid), s1)"
  shows "db (snd (post_comparison env request ro uu s)) = db s
         \<and> celery (snd (post_comparison env request ro uu s)) = celery s
         \<and> redis (snd (post_comparison env request ro uu s)) =
             (redis s)(active_comparison (comparison_details_token request) := None)"
  using resolve_caller_frame [OF assms]
  by (simp add: post_comparison_unfold [OF assms] record_vote_ineligible split: option.splits)

subsection \<open>The small installation, evaluated\<close>

lemmas demo_defs = demo_env_def demo_db_def demo_state_def demo_vote_def demo_tie_def
  demo_vote_v_def demo_vote_u_def

lemmas vote_defs = post_comparison_def resolve_caller_def record_vote_def parse_token_data_def
  split_colon_def sample_lookup_of_def derive_test_set_id_def add_comparison_def trigger_elo_def
  redis_getdel_def redis_get_def redis_set_ex_nx_def active_comparison_def
  elo_calculation_in_progress_def truthy_str_def truthy_int_def scalar_def one_def log_db_def
  Let_def

lemma demo_vote_reply:
  "fst (post_comparison demo_env demo_vote [] None demo_state) =
     Inr \<lparr>sample_1_model = ''model-a'', sample_2_model = ''model-b''\<rparr>"
  by (simp add: demo_defs vote_defs)

lemma demo_never_drawn_again: "never_drawn_again demo_env ''t'' demo_state"
  by (simp add: never_drawn_again_def demo_defs)

lemma demo_known: "caller_known None (db demo_state)" "caller_known (Some ''alice'') (db demo_state)"
  by (simp_all add: caller_known_def demo_defs)

lemma demo_alice:
  "filter (\<lambda>x. User_external_id x = ''alice'') (user_tbl (db demo_state)) =
     [\<lparr>User_id = 5, User_external_id = ''alice'', User_scopes = []\<rparr>]"
  "PERM_VOTING_VOTE demo_env \<notin> set (User_scopes \<lparr>User_id = 5, User_external_id = ''alice'', User_scopes = []\<rparr>)"
  by (simp_all add: demo_defs)

lemma demo_valid_vote:
  "valid_vote demo_env demo_vote demo_state demo_sample_a demo_sample_b
     [(1, demo_sample_a), (2, demo_sample_b)] \<lparr>Metric_id = 4, Metric_external_id = ''m''\<rparr>"
  by (simp add: valid_vote_def demo_defs vote_defs demo_sample_a_def demo_sample_b_def)

lemma demo_valid_tie:
  "valid_vote demo_env demo_tie demo_state demo_sample_a demo_sample_b
     [(1, demo_sample_a), (1, demo_sample_b)] \<lparr>Metric_id = 4, Metric_external_id = ''m''\<rparr>"
  by (simp add: valid_vote_def demo_defs vote_defs demo_sample_a_def demo_sample_b_def)

subsection \<open>The expansion of the ranking\<close>

lemma resolve_caller_may_vote:
  assumes "may_vote env uu (db s)"
  shows "\<exists>user sid itid s1. resolve_caller env ro uu s = (Inr (user, True, sid, itid), s1)"
proof (cases "truthy_str uu")
  case False
  from resolve_caller_anonymous [OF this, of env ro s] show ?thesis
    by (cases "process_session_headers env ro (db s) None") auto
next
  case True
  then obtain u where u: "uu = Some u" "u \<noteq> []"
    by (auto simp: truthy_str_def split: option.splits)
  with assms obtain user where
    user: "filter (\<lambda>x. User_external_id x = u) (user_tbl (db s)) = [user]"
      "PERM_VOTING_VOTE env \<in> set (User_scopes user)"
    by (auto simp: may_vote_def split: list.splits)
  from resolve_caller_authenticated [OF user(1) u(2), of env ro] user(2) u(1) show ?thesis
    by (cases "process_session_headers env ro (db s) (Some user)") auto
qed

lemma append_group_eq:
  "append_group lk r sids acc =
     (if \<forall>sid\<in>set sids. lk sid \<noteq> None
      then Inr (acc @ map (\<lambda>sid. (r, the (lk sid))) sids) else Inl KeyError)"
  by (induction sids arbitrary: acc) (auto split: option.splits)

lemma expand_ranks_eq:
  "expand_ranks lk idx xs acc =
     (if \<forall>e\<in>set xs. \<forall>sid\<in>set (members e). lk sid \<noteq> None
      then Inr (acc @ concat (map (\<lambda>(i, e). map (\<lambda>sid. (i + 1, the (lk sid))) (members e))
                                (enumerate idx xs)))
      else Inl KeyError)"
proof (induction xs arbitrary: idx acc)
  case Nil
  show ?case by simp
next
  case (Cons e xs)
  show ?case
    by (cases e) (auto simp: Cons.IH append_group_eq split: option.splits)
qed

lemma sample_lookup_of_key:
  "sample_lookup_of samples k = Some x \<Longrightarrow> Sample_comparison_sample_id x = k"
  by (auto simp: sample_lookup_of_def dest!: map_of_SomeD)

lemma positions_of_samples:
  assumes "\<forall>e\<in>set xs. \<forall>sid\<in>set (members e). Sample_comparison_sample_id (the (lk sid)) = sid"
  shows "map (\<lambda>(r, x). (r, Sample_comparison_sample_id x))
           (concat (map (\<lambda>(i, e). map (\<lambda>sid. (i + 1, the (lk sid))) (members e))
                      (enumerate idx xs))) =
         concat (map (\<lambda>(i, e). map (\<lambda>sid. (i + 1, sid)) (members e)) (enumerate idx xs))"
  using assms by (induction xs arbitrary: idx) auto

lemma expand_ranks_positions:
  assumes "expand_ranks (sample_lookup_of samples) 0 xs [] = Inr ranks"
  shows "map (\<lambda>(r, x). (r, Sample_comparison_sample_id x)) ranks = ranking_by_position xs"
proof -
  let ?lk = "sample_lookup_of samples"
  from assms have ok: "\<forall>e\<in>set xs. \<forall>sid\<in>set (members e). ?lk sid \<noteq> None"
    and ranks: "ranks = concat (map (\<lambda>(i, e). map (\<lambda>sid. (i + 1, the (?lk sid))) (members e))
                                (enumerate 0 xs))"
    by (auto simp: expand_ranks_eq split: if_splits)
  have "\<forall>e\<in>set xs. \<forall>sid\<in>set (members e). Sample_comparison_sample_id (the (?lk sid)) = sid"
    using ok sample_lookup_of_key [of samples] by auto
  from positions_of_samples [OF this, of 0] show ?thesis
    by (simp add: ranks ranking_by_position_def)
qed

lemma valid_vote_positions:
  assumes "valid_vote env request s sample_1 sample_2 ranks m"
  shows "map (\<lambda>(r, x). (r, Sample_comparison_sample_id x)) ranks =
           ranking_by_position (ordered_sample_ids request)"
  using assms
  by (auto simp: valid_vote_def Let_def split: option.splits sum.splits
      intro: expand_ranks_positions)

subsection \<open>The recompute lock over a run\<close>

lemma lock_held_live:
  "lock_held_for n s \<Longrightarrow> redis_get (now s) (redis s) elo_calculation_in_progress \<noteq> None"
  by (auto simp: lock_held_for_def redis_get_def split: option.splits)

lemma trigger_elo_locked:
  "redis_get (now s) (redis s) elo_calculation_in_progress \<noteq> None \<Longrightarrow>
     celery (trigger_elo s) = celery s \<and> redis (trigger_elo s) = redis s"
  by (auto simp: trigger_elo_def redis_set_ex_nx_def split: option.splits)

lemma record_vote_locked:
  assumes "redis_get (now s) (redis s) elo_calculation_in_progress \<noteq> None"
  shows "celery (snd (record_vote env request caller v s)) = celery s"
    and "redis (snd (record_vote env request caller v s)) = redis s"
proof -
  have "celery (trigger_elo s') = celery s \<and> redis (trigger_elo s') = redis s"
    if "now s' = now s" "redis s' = redis s" "celery s' = celery s" for s'
    using trigger_elo_locked [of s'] assms that by simp
  then have "celery (snd (record_vote env request caller v s)) = celery s
             \<and> redis (snd (record_vote env request caller v s)) = redis s"
    by (auto simp: record_vote_def Let_def case_prod_beta
        split: sum.splits option.splits prod.splits)
  then show "celery (snd (record_vote env request caller v s)) = celery s"
    and "redis (snd (record_vote env request caller v s)) = redis s" by simp_all
qed

lemma post_comparison_locked:
  assumes "redis_get (now s) (redis s) elo_calculation_in_progress \<noteq> None"
  shows "celery (snd (post_comparison env request ro uu s)) = celery s
         \<and> redis (snd (post_comparison env request ro uu s)) elo_calculation_in_progress =
             redis s elo_calculation_in_progress"
proof -
  obtain a s1 where rc: "resolve_caller env ro uu s = (a, s1)" by (cases "resolve_caller env ro uu s")
  note fr = resolve_caller_frame [OF rc]
  have live: "redis_get (now (redeemed request s s1)) (redis (redeemed request s s1))
                elo_calculation_in_progress \<noteq> None"
    using assms fr by (simp add: redis_get_def)
  show ?thesis
    using fr rc record_vote_locked [OF live]
    by (cases a; simp add: post_comparison_unfold post_comparison_failed_caller split: option.splits)
qed

lemma step_locked:
  assumes "lock_held_for (elapsed (e # evs)) s"
  shows "lock_held_for (elapsed evs) (step env e s) \<and> celery (step env e s) = celery s"
proof (cases e)
  case (Batch request ro uid)
  have "\<forall>n\<ge>uuid4_calls s. elo_calculation_in_progress \<noteq> active_comparison (uuid_uuid4 env n)"
    by simp
  from get_comparison_batch_redis [OF this, of request ro uid] assms Batch
  show ?thesis by (auto simp: lock_held_for_def split: option.splits)
next
  case (Vote request ro uu)
  from post_comparison_locked [OF lock_held_live, of _ s env request ro uu] assms Vote
  show ?thesis by (auto simp: lock_held_for_def split: option.splits)
next
  case (Elapse n)
  with assms show ?thesis
    by (auto simp: lock_held_for_def split: option.splits)
qed

lemma run_locked:
  assumes "lock_held_for (elapsed evs) s"
  shows "celery (run env evs s) = celery s"
  using assms
proof (induction evs arbitrary: s)
  case Nil
  show ?case by (simp add: run_def)
next
  case (Cons e evs)
  from step_locked [OF Cons.prems, of env] Cons.IH [of "step env e s"]
  show ?case by (simp add: run_def)
qed

subsection \<open>The tokens a batch issues\<close>








lemmas batch_defs = get_comparison_batch_def batch_for_test_set_def query_name_of_def
  issue_token_def uuid4_def redis_setex_def MAX_BATCH_SIZE_def scalar_def log_db_def Let_def


subsection \<open>The checks of the batch handler, in order\<close>

lemma sample_lookup_of_missing:
  assumes "k \<notin> Sample_comparison_sample_id ` set samples"
  shows "sample_lookup_of (filter p samples) k = None"
proof -
  have "k \<notin> fst ` set (rev (map (\<lambda>x. (Sample_comparison_sample_id x, x)) (filter p samples)))"
    using assms by (auto simp: image_iff)
  then show ?thesis
    unfolding sample_lookup_of_def map_of_eq_None_iff by simp
qed

lemma get_comparison_batch_unfold:
  "get_comparison_batch env request ro uid s =
     (case default_test_set uid (db s) of
        None \<Rightarrow> (Inl (test_set_not_found uid), s\<lparr>db_log := db_log s @ preamble uid (db s)\<rparr>)
      | Some t \<Rightarrow>
          if batch_user_found uid (db s)
          then batch_for_test_set env request (TestSet_id t)
                 (s\<lparr>db_log := db_log s @ preamble uid (db s)\<rparr>)
          else (Inl (HTTPException 404 ''Authenticated user not found''),
                s\<lparr>db_log := db_log s @ preamble uid (db s)\<rparr>))"
  by (cases uid)
     (auto simp: get_comparison_batch_def default_test_set_def default_test_set_name_def
        batch_user_found_def preamble_def test_set_not_found_def log_db_def Let_def case_prod_beta
        split: option.splits)

lemma batch_for_test_set_unfold:
  "batch_for_test_set env request tsid s =
     (if request_batch_size request > 10 then (Inl (HTTPException 406 ''Invalid batch size''), s)
      else
        (case scalar (\<lambda>m. Metric_external_id m = request_metric_id request) (metric_tbl (db s)) of
           None \<Rightarrow> (Inl (HTTPException 400 ''Invalid metric id''),
                     s\<lparr>db_log := db_log s @ [Select_Metric (request_metric_id request)]\<rparr>)
         | Some metric \<Rightarrow>
             (case db_execute env (query_name_of env) tsid (request_batch_size request) (db s) of
                None \<Rightarrow>
                  (Inl (HTTPException 500
                     (''Failed to retrieve comparison batch using '' @ [CHR 0x27] @
                        query_name_of env @ [CHR 0x27])),
                   s\<lparr>db_log := db_log s @ [Select_Metric (request_metric_id request),
                      Execute (query_name_of env) tsid (request_batch_size request)]\<rparr>)
              | Some sample_data \<Rightarrow>
                  (case batch_rows env metric tsid sample_data []
                          (s\<lparr>db_log := db_log s @ [Select_Metric (request_metric_id request),
                             Execute (query_name_of env) tsid (request_batch_size request)]\<rparr>) of
                     (Inl e, s3) \<Rightarrow> (Inl e, s3)
                   | (Inr comparison_tokens, s3) \<Rightarrow>
                       (Inr \<lparr>comparisons = comparison_tokens\<rparr>, s3)))))"
  by (simp add: batch_for_test_set_def MAX_BATCH_SIZE_def log_db_def Let_def
      split: option.splits)

lemma batch_rows_log:
  "set (db_log (snd (batch_rows env metric tsid rows toks s))) \<subseteq>
     set (db_log s) \<union> {Select_avg_vote_count tsid}"
proof (induction rows arbitrary: toks s)
  case Nil
  show ?case by auto
next
  case (Cons row rest)
  show ?case
    using Cons.IH [of toks s]
      Cons.IH [of "toks @ [fst (issue_token env metric row s)]" "snd (issue_token env metric row s)"]
      Cons.IH [of "toks @ [fst (issue_token env metric row (log_db (Select_avg_vote_count tsid) s))]"
         "snd (issue_token env metric row (log_db (Select_avg_vote_count tsid) s))"]
    by (auto simp: Let_def case_prod_beta)
qed

lemma batch_for_test_set_log:
  "set (db_log (snd (batch_for_test_set env request tsid s))) \<subseteq>
     set (db_log s) \<union> {Select_Metric (request_metric_id request),
       Execute (query_name_of env) tsid (request_batch_size request), Select_avg_vote_count tsid}"
proof -
  have "set (db_log (snd (batch_rows env metric tsid rows []
          (s\<lparr>db_log := db_log s @ [Select_Metric (request_metric_id request),
                             Execute (query_name_of env) tsid (request_batch_size request)]\<rparr>))))
        \<subseteq> set (db_log s) \<union> {Select_Metric (request_metric_id request),
       Execute (query_name_of env) tsid (request_batch_size request), Select_avg_vote_count tsid}"
    for metric rows
    using batch_rows_log [of env metric tsid rows "[]"
        "s\<lparr>db_log := db_log s @ [Select_Metric (request_metric_id request),
                             Execute (query_name_of env) tsid (request_batch_size request)]\<rparr>"]
    by auto
  then show ?thesis
    unfolding batch_for_test_set_unfold
    by (auto simp: case_prod_beta split: option.splits sum.splits)
qed

lemma preamble_ops:
  "op \<in> set (preamble uid d) \<Longrightarrow>
     op = Select_TestSet_id (default_test_set_name uid) \<or> op = Process_session_headers
     \<or> (\<exists>u. uid = Some u \<and> op = Select_User u)"
  by (auto simp: preamble_def split: option.splits if_splits)

lemma batch_for_test_set_request:
  assumes "request_batch_size request' = request_batch_size request"
      and "request_metric_id request' = request_metric_id request"
  shows "batch_for_test_set env request' tsid s = batch_for_test_set env request tsid s"
  unfolding batch_for_test_set_def assms by (rule refl)

lemma get_comparison_batch_request:
  assumes "request_batch_size request' = request_batch_size request"
      and "request_metric_id request' = request_metric_id request"
  shows "get_comparison_batch env request' ro uid s = get_comparison_batch env request ro uid s"
  unfolding get_comparison_batch_def batch_for_test_set_request [OF assms] by (rule refl)

lemmas demo_batch_defs = demo_batch_def demo_big_def demo_unknown_metric_def
  demo_env_priority_def demo_state_no_test_set_def

lemmas batch_view_defs = default_test_set_def default_test_set_name_def batch_user_found_def
  preamble_def test_set_not_found_def scalar_def

lemma demo_default_test_set:
  "default_test_set None (db demo_state) =
     Some \<lparr>TestSet_id = 1, TestSet_name = ''Unauthenticated Test Set''\<rparr>"
  "default_test_set (Some ''carol'') (db demo_state) =
     Some \<lparr>TestSet_id = 2, TestSet_name = ''Authenticated Test Set''\<rparr>"
  "default_test_set None (db demo_state_no_test_set) = None"
  "batch_user_found None (db demo_state)"
  "\<not> batch_user_found (Some ''carol'') (db demo_state)"
  "preamble None (db demo_state) =
     [Select_TestSet_id ''Unauthenticated Test Set'', Process_session_headers]"
  by (simp_all add: batch_view_defs demo_defs demo_batch_defs)

subsection \<open>Callers and the response\<close>

lemma record_vote_response_eq:
  assumes "case parse_token_data env v of
             Inl e \<Rightarrow> True
           | Inr (metric_id, sample_1_id, sample_2_id) \<Rightarrow>
               scalar (\<lambda>m. Metric_external_id m = metric_id) (metric_tbl (db s)) \<noteq> None"
      and "db s1 = db s" and "db s2 = db s"
  shows "fst (record_vote env request c1 v s1) = fst (record_vote env request c2 v s2)"
proof (cases "parse_token_data env v")
  case (Inl e)
  then show ?thesis
    by (cases c1; cases c2) (simp add: record_vote_def)
next
  case (Inr p)
  obtain metric_id sample_1_id sample_2_id where p: "p = (metric_id, sample_1_id, sample_2_id)"
    by (cases p)
  from assms(1) Inr p obtain m where
    m: "scalar (\<lambda>m. Metric_external_id m = metric_id) (metric_tbl (db s)) = Some m"
    by auto
  obtain u1 v1 a1 b1 where c1: "c1 = (u1, v1, a1, b1)" by (cases c1)
  obtain u2 v2 a2 b2 where c2: "c2 = (u2, v2, a2, b2)" by (cases c2)
  show ?thesis
    using Inr p m assms(2,3)
    by (simp add: record_vote_def c1 c2 Let_def case_prod_beta
        split: option.splits sum.splits)
qed

lemma post_comparison_response_eq:
  assumes "token_metric_found env request s"
      and "caller_known uu1 (db s)" and "caller_known uu2 (db s)"
  shows "fst (post_comparison env request ro1 uu1 s) = fst (post_comparison env request ro2 uu2 s)"
proof -
  from resolve_caller_known [OF assms(2), of env ro1] obtain c1 s1 where
    rc1: "resolve_caller env ro1 uu1 s = (Inr c1, s1)" by blast
  from resolve_caller_known [OF assms(3), of env ro2] obtain c2 s2 where
    rc2: "resolve_caller env ro2 uu2 s = (Inr c2, s2)" by blast
  have d1: "db s1 = db s" using resolve_caller_frame [OF rc1] by simp
  have d2: "db s2 = db s" using resolve_caller_frame [OF rc2] by simp
  show ?thesis
  proof (cases "redis_get (now s) (redis s) (active_comparison (comparison_details_token request))")
    case None
    then show ?thesis by (simp add: post_comparison_unfold [OF rc1] post_comparison_unfold [OF rc2])
  next
    case (Some v)
    with assms(1) have found: "case parse_token_data env v of
             Inl e \<Rightarrow> True
           | Inr (metric_id, sample_1_id, sample_2_id) \<Rightarrow>
               scalar (\<lambda>m. Metric_external_id m = metric_id) (metric_tbl (db s)) \<noteq> None"
      by (simp add: token_metric_found_def)
    have "fst (record_vote env request c1 v (redeemed request s s1)) =
          fst (record_vote env request c2 v (redeemed request s s2))"
      by (rule record_vote_response_eq [OF found]) (simp_all add: d1 d2)
    with Some show ?thesis
      by (simp add: post_comparison_unfold [OF rc1] post_comparison_unfold [OF rc2])
  qed
qed

lemma valid_vote_metric_found:
  "valid_vote env request s sample_1 sample_2 ranks m \<Longrightarrow> token_metric_found env request s"
  by (auto simp: valid_vote_def token_metric_found_def Let_def split: option.splits sum.splits)

lemma caller_unknown:
  assumes "\<not> caller_known uu (db s)"
  shows "\<exists>u. uu = Some u \<and> u \<noteq> []
           \<and> (one (\<lambda>x. User_external_id x = u) (user_tbl (db s)) = Inl NoResultFound
                \<or> one (\<lambda>x. User_external_id x = u) (user_tbl (db s)) = Inl MultipleResultsFound)"
proof -
  from assms obtain u where u: "uu = Some u" "u \<noteq> []"
    "length (filter (\<lambda>x. User_external_id x = u) (user_tbl (db s))) \<noteq> 1"
    by (auto simp: caller_known_def split: option.splits)
  from u(3) have "one (\<lambda>x. User_external_id x = u) (user_tbl (db s)) = Inl NoResultFound
                \<or> one (\<lambda>x. User_external_id x = u) (user_tbl (db s)) = Inl MultipleResultsFound"
    by (auto simp: one_def split: list.splits)
  with u show ?thesis by blast
qed

lemma post_comparison_unknown_caller:
  assumes "\<not> caller_known uu (db s)"
  shows "(fst (post_comparison env request ro uu s) = Inl NoResultFound
          \<or> fst (post_comparison env request ro uu s) = Inl MultipleResultsFound)
         \<and> redis (snd (post_comparison env request ro uu s)) = redis s
         \<and> db (snd (post_comparison env request ro uu s)) = db s
         \<and> celery (snd (post_comparison env request ro uu s)) = celery s"
proof -
  from caller_unknown [OF assms] obtain u where u: "uu = Some u" "u \<noteq> []"
    and e: "one (\<lambda>x. User_external_id x = u) (user_tbl (db s)) = Inl NoResultFound
            \<or> one (\<lambda>x. User_external_id x = u) (user_tbl (db s)) = Inl MultipleResultsFound"
    by blast
  from e show ?thesis
  proof
    assume "one (\<lambda>x. User_external_id x = u) (user_tbl (db s)) = Inl NoResultFound"
    with u have "resolve_caller env ro uu s = (Inl NoResultFound, log_db (Select_User u) s)"
      by (simp add: resolve_caller_def truthy_str_def Let_def)
    from post_comparison_failed_caller [OF this] show ?thesis by simp
  next
    assume "one (\<lambda>x. User_external_id x = u) (user_tbl (db s)) = Inl MultipleResultsFound"
    with u have "resolve_caller env ro uu s = (Inl MultipleResultsFound, log_db (Select_User u) s)"
      by (simp add: resolve_caller_def truthy_str_def Let_def)
    from post_comparison_failed_caller [OF this] show ?thesis by simp
  qed
qed

lemma resolve_caller_may_not_vote:
  assumes "caller_known uu (db s)" and "\<not> may_vote env uu (db s)"
  shows "\<exists>user sid itid s1. resolve_caller env ro uu s = (Inr (user, False, sid, itid), s1)"
proof -
  from assms(2) obtain u where u: "uu = Some u" "u \<noteq> []"
    by (auto simp: may_vote_def split: option.splits)
  with assms(1) have "length (filter (\<lambda>x. User_external_id x = u) (user_tbl (db s))) = 1"
    by (simp add: caller_known_def)
  then obtain user where user: "filter (\<lambda>x. User_external_id x = u) (user_tbl (db s)) = [user]"
    by (cases "filter (\<lambda>x. User_external_id x = u) (user_tbl (db s))") auto
  with assms(2) u have "PERM_VOTING_VOTE env \<notin> set (User_scopes user)"
    by (simp add: may_vote_def)
  with resolve_caller_authenticated [OF user u(2), of env ro] u(1) show ?thesis
    by (cases "process_session_headers env ro (db s) (Some user)") auto
qed

section \<open>The claims\<close>

text \<open>
  C1. Redemption is the one \<^verbatim>\<open>getdel\<close> on the token's key. Once a submission with a
  token has reached the cache (its caller resolved), the key is gone; whatever requests
  and lapses of time follow, every later submission of the same token, by any caller
  that resolves, is the 404 "No active comparisons found" and leaves the store and the
  job queue as they were. So at most one redemption of a token succeeds. A token that
  is not in the cache or has expired gets the same 404.
\<close>

theorem token_redeemed_at_most_once:
  assumes "caller_known user_uuid (db s)"
      and "caller_known user_uuid' (db s)"
      and "never_drawn_again env (comparison_details_token request) s"
      and "comparison_details_token request' = comparison_details_token request"
      and "s1 = snd (post_comparison env request request_obj user_uuid s)"
      and "s2 = run env evs s1"
  shows "redis s1 (active_comparison (comparison_details_token request)) = None
         \<and> fst (post_comparison env request' request_obj' user_uuid' s2) =
             Inl (HTTPException 404 ''No active comparisons found'')
         \<and> db (snd (post_comparison env request' request_obj' user_uuid' s2)) = db s2
         \<and> celery (snd (post_comparison env request' request_obj' user_uuid' s2)) = celery s2
         \<and> (redis_get (now s3) (redis s3)
                (active_comparison (comparison_details_token request'')) = None
              \<and> caller_known user_uuid'' (db s3) \<longrightarrow>
              fst (post_comparison env request'' request_obj'' user_uuid'' s3) =
                Inl (HTTPException 404 ''No active comparisons found'')
              \<and> db (snd (post_comparison env request'' request_obj'' user_uuid'' s3)) = db s3)
         \<and> successes env (comparison_details_token request) evs' s \<le> 1"
proof -
  have spent1: "redis s1 (active_comparison (comparison_details_token request)) = None"
    using assms(1,5) by (simp add: post_comparison_spent)
  have nd1: "never_drawn_again env (comparison_details_token request) s1"
    using assms(3,5) by (simp add: never_drawn_again_def)
  from run_spent [OF nd1 spent1, of evs]
  have spent2: "redis s2 (active_comparison (comparison_details_token request')) = None"
    and users: "user_tbl (db s2) = user_tbl (db s)"
    using assms(4,5,6) by simp_all
  have known: "caller_known user_uuid' (db s2)"
    using assms(2) caller_known_cong [OF users] by simp
  have "redis_get (now s2) (redis s2) (active_comparison (comparison_details_token request')) = None"
    using spent2 by (simp add: redis_get_def)
  from post_comparison_absent [OF known this, of env request_obj'] spent1
    post_comparison_absent [of user_uuid'' s3 request'' env request_obj'']
    successes_le_1 [OF assms(3), of evs']
  show ?thesis by simp
qed

theorem token_redeemed_at_most_once_witness:
  "fst (post_comparison demo_env demo_vote [] None demo_state) =
     Inr \<lparr>sample_1_model = ''model-a'', sample_2_model = ''model-b''\<rparr>
   \<and> successes demo_env ''t''
        [Vote demo_vote [] None, Elapse 5, Vote demo_tie [] (Some ''bob''), Vote demo_vote [] None]
        demo_state = 1
   \<and> fst (post_comparison demo_env demo_vote [] (Some ''alice'')
            (run demo_env [Elapse 5, Vote demo_tie [] None]
               (snd (post_comparison demo_env demo_vote [] None demo_state)))) =
       Inl (HTTPException 404 ''No active comparisons found'')"
proof -
  have nd: "never_drawn_again demo_env (comparison_details_token demo_vote) demo_state"
    using demo_never_drawn_again by (simp add: demo_vote_def)
  have tok: "comparison_details_token demo_vote = ''t''" by (simp add: demo_vote_def)
  have pos: "0 < successes demo_env ''t''
        [Vote demo_vote [] None, Elapse 5, Vote demo_tie [] (Some ''bob''), Vote demo_vote [] None]
        demo_state"
    using demo_vote_reply tok by simp
  from token_redeemed_at_most_once [OF demo_known(1) demo_known(2) nd refl refl refl,
      where request_obj = "[]" and evs = "[Elapse 5, Vote demo_tie [] None]"
        and request_obj' = "[]" and ?s3.0 = demo_state and user_uuid'' = None
        and request'' = demo_vote and request_obj'' = "[]"
        and evs' = "[Vote demo_vote [] None, Elapse 5, Vote demo_tie [] (Some ''bob''),
                     Vote demo_vote [] None]"]
  have le: "successes demo_env ''t''
        [Vote demo_vote [] None, Elapse 5, Vote demo_tie [] (Some ''bob''), Vote demo_vote [] None]
        demo_state \<le> 1"
    and late: "fst (post_comparison demo_env demo_vote [] (Some ''alice'')
            (run demo_env [Elapse 5, Vote demo_tie [] None]
               (snd (post_comparison demo_env demo_vote [] None demo_state)))) =
       Inl (HTTPException 404 ''No active comparisons found'')"
    by (simp_all add: tok)
  from le pos have "successes demo_env ''t''
        [Vote demo_vote [] None, Elapse 5, Vote demo_tie [] (Some ''bob''), Vote demo_vote [] None]
        demo_state = 1"
    by linarith
  with late demo_vote_reply show ?thesis by simp
qed

text \<open>
  C2, as amended. A batch request with \<open>batch_size > 10\<close> is rejected before the metric
  lookup and before any pairing plan is executed, and no token is minted. The storage
  accesses of lines 80-101 (the default test set, the authenticated user, the session
  headers) come first: the response is their 500 or 404 when they fail and the 406
  otherwise.
\<close>

theorem oversized_batch_rejected_after_lookups:
  assumes "request_batch_size request > MAX_BATCH_SIZE"
  shows "fst (get_comparison_batch env request request_obj user_id s) =
           (case default_test_set user_id (db s) of
              None \<Rightarrow> Inl (test_set_not_found user_id)
            | Some t \<Rightarrow>
                if batch_user_found user_id (db s)
                then Inl (HTTPException 406 ''Invalid batch size'')
                else Inl (HTTPException 404 ''Authenticated user not found''))
         \<and> db_log (snd (get_comparison_batch env request request_obj user_id s)) =
             db_log s @ preamble user_id (db s)
         \<and> Select_Metric x \<notin> set (preamble user_id (db s))
         \<and> Execute name tsid n \<notin> set (preamble user_id (db s))
         \<and> Select_avg_vote_count tsid \<notin> set (preamble user_id (db s))
         \<and> redis (snd (get_comparison_batch env request request_obj user_id s)) = redis s
         \<and> uuid4_calls (snd (get_comparison_batch env request request_obj user_id s)) =
             uuid4_calls s"
proof -
  have big: "request_batch_size request > 10"
    using assms by (simp add: MAX_BATCH_SIZE_def)
  have "Select_Metric x \<notin> set (preamble user_id (db s))"
    "Execute name tsid n \<notin> set (preamble user_id (db s))"
    "Select_avg_vote_count tsid \<notin> set (preamble user_id (db s))"
    using preamble_ops [of _ user_id "db s"] by auto
  then show ?thesis
    unfolding get_comparison_batch_unfold batch_for_test_set_unfold using big
    by (simp split: option.splits)
qed

theorem oversized_batch_rejected_after_lookups_witness:
  "fst (get_comparison_batch demo_env demo_big [] None demo_state) =
     Inl (HTTPException 406 ''Invalid batch size'')
   \<and> db_log (snd (get_comparison_batch demo_env demo_big [] None demo_state)) =
       [Select_TestSet_id ''Unauthenticated Test Set'', Process_session_headers]
   \<and> redis (snd (get_comparison_batch demo_env demo_big [] None demo_state)) = redis demo_state
   \<and> uuid4_calls (snd (get_comparison_batch demo_env demo_big [] None demo_state)) = 1"
proof -
  have big: "request_batch_size demo_big > MAX_BATCH_SIZE"
    by (simp add: demo_big_def MAX_BATCH_SIZE_def)
  have vals: "db_log demo_state = []" "uuid4_calls demo_state = 1" by (simp_all add: demo_defs)
  from oversized_batch_rejected_after_lookups [OF big, of demo_env "[]" None demo_state]
    demo_default_test_set vals
  show ?thesis by simp
qed

text \<open>
  The claim as stated fails: the 406 of an anonymous request for eleven pairs comes
  after two storage accesses, and without a default test set the response is the 500.
\<close>

theorem oversized_batch_rejected_before_storage_counterexample:
  "request_batch_size demo_big > MAX_BATCH_SIZE
   \<and> db_log demo_state = []
   \<and> db_log (snd (get_comparison_batch demo_env demo_big [] None demo_state)) =
       [Select_TestSet_id ''Unauthenticated Test Set'', Process_session_headers]
   \<and> fst (get_comparison_batch demo_env demo_big [] None demo_state_no_test_set) =
       Inl (HTTPException 500 ''Default unauthenticated test set not found'')"
  by (simp add: demo_defs demo_batch_defs batch_defs)

text \<open>
  C3. The ranking is expanded by position: the rank of an element of
  \<^verbatim>\<open>ordered_sample_ids\<close> is its 1-based index, and every member of a tie group gets the
  rank of the group. A valid submission by an eligible caller persists one
  ComparisonRank row for each (rank, sample) pair. \<open>[a, b]\<close> gives \<open>a\<close> rank 1 and \<open>b\<close>
  rank 2; \<open>[[a, b]]\<close> gives both rank 1.
\<close>

theorem ranking_expanded_by_position:
  assumes "valid_vote env request s sample_1 sample_2 ranks m"
      and "may_vote env user_uuid (db s)"
  shows "map (\<lambda>(r, x). (r, Sample_comparison_sample_id x)) ranks =
           ranking_by_position (ordered_sample_ids request)
         \<and> comparison_rank_tbl (db (snd (post_comparison env request request_obj user_uuid s))) =
             comparison_rank_tbl (db s) @ map (rank_row (comparison_id_seq (db s) + 1)) ranks
         \<and> ranking_by_position [Single a, Single b] = [(1, a), (2, b)]
         \<and> ranking_by_position [Group [a, b]] = [(1, a), (1, b)]"
proof -
  from resolve_caller_may_vote [OF assms(2), of request_obj] obtain user sid itid s1 where
    rc: "resolve_caller env request_obj user_uuid s = (Inr (user, True, sid, itid), s1)"
    by blast
  from post_comparison_valid(2) [OF assms(1) rc] valid_vote_positions [OF assms(1)]
  show ?thesis by (simp add: ranking_by_position_def)
qed

theorem ranking_expanded_by_position_witness:
  "comparison_rank_tbl (db (snd (post_comparison demo_env demo_vote [] None demo_state))) =
     [\<lparr>ComparisonRank_comparison_id = 1, ComparisonRank_sample_id = 11, ComparisonRank_rank = 1\<rparr>,
      \<lparr>ComparisonRank_comparison_id = 1, ComparisonRank_sample_id = 12, ComparisonRank_rank = 2\<rparr>]
   \<and> comparison_rank_tbl
       (db (snd (post_comparison demo_env demo_tie [] (Some ''bob'') demo_state))) =
     [\<lparr>ComparisonRank_comparison_id = 1, ComparisonRank_sample_id = 11, ComparisonRank_rank = 1\<rparr>,
      \<lparr>ComparisonRank_comparison_id = 1, ComparisonRank_sample_id = 12, ComparisonRank_rank = 1\<rparr>]"
proof -
  have anon: "may_vote demo_env None (db demo_state)"
    and bob: "may_vote demo_env (Some ''bob'') (db demo_state)"
    by (simp_all add: may_vote_def demo_defs)
  from ranking_expanded_by_position [OF demo_valid_vote anon, where request_obj = "[]"]
    ranking_expanded_by_position [OF demo_valid_tie bob, where request_obj = "[]"]
  show ?thesis
    by (simp add: rank_row_def demo_sample_a_def demo_sample_b_def demo_defs)
qed

text \<open>
  C4, as amended. On a valid submission (the token is live, its metric and its two
  samples are in the store, the ranking names only these samples) an anonymous caller
  adds one Comparison row and one ComparisonRank row for each ranked sample (none for an
  empty ranking); an authenticated caller without the voting scope leaves the store
  unchanged; and both receive the same 200 response, the model names of the two
  samples. Whenever the metric of the token is in the store, any two callers that
  resolve receive the same response, be it the 200 or a failure.
\<close>

theorem eligibility_not_in_response_of_valid_vote:
  "(valid_vote env request s sample_1 sample_2 ranks m \<and> \<not> truthy_str anonymous \<longrightarrow>
      fst (post_comparison env request request_obj anonymous s) =
        Inr (reply_of sample_1 sample_2)
      \<and> comparison_tbl (db (snd (post_comparison env request request_obj anonymous s))) =
          comparison_tbl (db s) @
            [comparison_row s None m sample_1 sample_2
               (fst (process_session_headers env request_obj (db s) None))
               (snd (process_session_headers env request_obj (db s) None))]
      \<and> comparison_rank_tbl (db (snd (post_comparison env request request_obj anonymous s))) =
          comparison_rank_tbl (db s) @ map (rank_row (comparison_id_seq (db s) + 1)) ranks)
   \<and> (valid_vote env request s sample_1 sample_2 ranks m
        \<and> filter (\<lambda>x. User_external_id x = u) (user_tbl (db s)) = [user] \<and> u \<noteq> []
        \<and> PERM_VOTING_VOTE env \<notin> set (User_scopes user) \<longrightarrow>
        fst (post_comparison env request request_obj' (Some u) s) =
          Inr (reply_of sample_1 sample_2)
        \<and> db (snd (post_comparison env request request_obj' (Some u) s)) = db s)
   \<and> (token_metric_found env request s
        \<and> caller_known user_uuid_a (db s) \<and> caller_known user_uuid_b (db s) \<longrightarrow>
        fst (post_comparison env request request_obj_a user_uuid_a s) =
        fst (post_comparison env request request_obj_b user_uuid_b s))"
proof -
  have a: "fst (post_comparison env request request_obj anonymous s) =
        Inr (reply_of sample_1 sample_2)
      \<and> comparison_tbl (db (snd (post_comparison env request request_obj anonymous s))) =
          comparison_tbl (db s) @
            [comparison_row s None m sample_1 sample_2
               (fst (process_session_headers env request_obj (db s) None))
               (snd (process_session_headers env request_obj (db s) None))]
      \<and> comparison_rank_tbl (db (snd (post_comparison env request request_obj anonymous s))) =
          comparison_rank_tbl (db s) @ map (rank_row (comparison_id_seq (db s) + 1)) ranks"
    if v: "valid_vote env request s sample_1 sample_2 ranks m" and an: "\<not> truthy_str anonymous"
  proof -
    obtain sid itid where psh: "process_session_headers env request_obj (db s) None = (sid, itid)"
      by (cases "process_session_headers env request_obj (db s) None")
    note anon = post_comparison_valid [OF v
        resolve_caller_anonymous [OF an, of env request_obj s, unfolded psh]]
    from anon(1,2) psh show ?thesis by simp
  qed
  have b: "fst (post_comparison env request request_obj' (Some u) s) =
          Inr (reply_of sample_1 sample_2)
        \<and> db (snd (post_comparison env request request_obj' (Some u) s)) = db s"
    if v: "valid_vote env request s sample_1 sample_2 ranks m"
      and us: "filter (\<lambda>x. User_external_id x = u) (user_tbl (db s)) = [user]" "u \<noteq> []"
      and lacks: "PERM_VOTING_VOTE env \<notin> set (User_scopes user)"
  proof -
    obtain sid' itid' where
      psh': "process_session_headers env request_obj' (db s) (Some user) = (sid', itid')"
      by (cases "process_session_headers env request_obj' (db s) (Some user)")
    from resolve_caller_authenticated [OF us, of env request_obj'] lacks
    have rc: "resolve_caller env request_obj' (Some u) s =
                (Inr (Some user, False, sid', itid'),
                 log_db Process_session_headers (log_db (Select_User u) s))"
      by (simp add: psh')
    note auth = post_comparison_valid [OF v rc]
    from auth(1,2) show ?thesis by simp
  qed
  note c = post_comparison_response_eq [of env request s user_uuid_a user_uuid_b
      request_obj_a request_obj_b]
  from a b c show ?thesis by blast
qed

theorem eligibility_not_in_response_of_valid_vote_witness:
  "fst (post_comparison demo_env demo_vote [] None demo_state) =
     Inr \<lparr>sample_1_model = ''model-a'', sample_2_model = ''model-b''\<rparr>
   \<and> comparison_tbl (db (snd (post_comparison demo_env demo_vote [] None demo_state))) =
       [\<lparr>Comparison_id = 1, Comparison_user_id = None, Comparison_metric_id = 4,
         Comparison_test_set_id = Some 1, Comparison_session_id = 7,
         Comparison_identification_token_id = 9\<rparr>]
   \<and> comparison_rank_tbl (db (snd (post_comparison demo_env demo_vote [] None demo_state))) =
       [\<lparr>ComparisonRank_comparison_id = 1, ComparisonRank_sample_id = 11, ComparisonRank_rank = 1\<rparr>,
        \<lparr>ComparisonRank_comparison_id = 1, ComparisonRank_sample_id = 12, ComparisonRank_rank = 2\<rparr>]
   \<and> fst (post_comparison demo_env demo_vote [] (Some ''alice'') demo_state) =
       Inr \<lparr>sample_1_model = ''model-a'', sample_2_model = ''model-b''\<rparr>
   \<and> db (snd (post_comparison demo_env demo_vote [] (Some ''alice'') demo_state)) = demo_db
   \<and> fst (post_comparison demo_env demo_vote_u [] (Some ''bob'') demo_state) =
       fst (post_comparison demo_env demo_vote_u [] (Some ''alice'') demo_state)"
proof -
  have anon: "\<not> truthy_str None" by (simp add: truthy_str_def)
  have found: "token_metric_found demo_env demo_vote_u demo_state"
    by (simp add: token_metric_found_def demo_defs vote_defs)
  have bob: "caller_known (Some ''bob'') (db demo_state)"
    by (simp add: caller_known_def demo_defs)
  have ne: "''alice'' \<noteq> []" by simp
  note main = eligibility_not_in_response_of_valid_vote [where env = demo_env
      and s = demo_state and anonymous = None and u = "''alice''"
      and user = "\<lparr>User_id = 5, User_external_id = ''alice'', User_scopes = []\<rparr>"
      and request_obj = "[]" and request_obj' = "[]" and request_obj_a = "[]"
      and request_obj_b = "[]"]
  from main [where request = demo_vote and ?sample_1.0 = demo_sample_a and ?sample_2.0 = demo_sample_b
      and ranks = "[(1, demo_sample_a), (2, demo_sample_b)]"
      and m = "\<lparr>Metric_id = 4, Metric_external_id = ''m''\<rparr>"
      and user_uuid_a = None and user_uuid_b = None]
    demo_valid_vote anon demo_alice ne
  have valid: "fst (post_comparison demo_env demo_vote [] None demo_state) =
        Inr (reply_of demo_sample_a demo_sample_b)
      \<and> comparison_tbl (db (snd (post_comparison demo_env demo_vote [] None demo_state))) =
          comparison_tbl (db demo_state) @
            [comparison_row demo_state None \<lparr>Metric_id = 4, Metric_external_id = ''m''\<rparr>
               demo_sample_a demo_sample_b
               (fst (process_session_headers demo_env [] (db demo_state) None))
               (snd (process_session_headers demo_env [] (db demo_state) None))]
      \<and> comparison_rank_tbl (db (snd (post_comparison demo_env demo_vote [] None demo_state))) =
          comparison_rank_tbl (db demo_state) @
            map (rank_row (comparison_id_seq (db demo_state) + 1))
              [(1, demo_sample_a), (2, demo_sample_b)]
      \<and> fst (post_comparison demo_env demo_vote [] (Some ''alice'') demo_state) =
          Inr (reply_of demo_sample_a demo_sample_b)
      \<and> db (snd (post_comparison demo_env demo_vote [] (Some ''alice'') demo_state)) =
          db demo_state"
    by simp
  from main [where request = demo_vote_u and ?sample_1.0 = demo_sample_a
      and ?sample_2.0 = demo_sample_b and ranks = "[]"
      and m = "\<lparr>Metric_id = 4, Metric_external_id = ''m''\<rparr>"
      and user_uuid_a = "Some ''bob''" and user_uuid_b = "Some ''alice''"]
    found bob demo_known(2)
  have same: "fst (post_comparison demo_env demo_vote_u [] (Some ''bob'') demo_state) =
       fst (post_comparison demo_env demo_vote_u [] (Some ''alice'') demo_state)"
    by simp
  from valid same show ?thesis
    by (simp add: reply_of_def comparison_row_def rank_row_def demo_sample_a_def demo_sample_b_def
        derive_test_set_id_def truthy_int_def demo_defs)
qed

text \<open>
  The claim as stated fails on a live token whose metric row is missing: the anonymous
  caller, who may vote, gets the AttributeError of \<^verbatim>\<open>metric.id\<close> (a 500) and no row is
  written, while the caller without the voting scope gets the 200.
\<close>

theorem eligibility_shows_without_metric_counterexample:
  "redis_get (now demo_state_q) (redis demo_state_q) (active_comparison ''q'') = Some ''z:a:b''
   \<and> scalar (\<lambda>m. Metric_external_id m = ''z'') (metric_tbl (db demo_state_q)) = None
   \<and> fst (post_comparison demo_env demo_vote_q [] None demo_state_q) = Inl AttributeError
   \<and> comparison_tbl (db (snd (post_comparison demo_env demo_vote_q [] None demo_state_q))) = []
   \<and> fst (post_comparison demo_env demo_vote_q [] (Some ''alice'') demo_state_q) =
       Inr \<lparr>sample_1_model = ''model-a'', sample_2_model = ''model-b''\<rparr>"
  by (simp add: demo_state_q_def demo_vote_q_def demo_defs vote_defs)

text \<open>
  C5. After a vote is written the trigger sets the lock key if it is not there, for
  300 seconds. When the set succeeds one \<open>elo_calculation\<close> job is enqueued; when the
  key is held nothing is enqueued and the response is the same 200. After a vote that
  took the lock, any requests within the next 300 seconds enqueue no further job.
\<close>

theorem recompute_debounced:
  assumes "valid_vote env request s sample_1 sample_2 ranks m"
      and "may_vote env user_uuid (db s)"
      and "s1 = snd (post_comparison env request request_obj user_uuid s)"
  shows "fst (post_comparison env request request_obj user_uuid s) =
           Inr (reply_of sample_1 sample_2)
         \<and> celery s1 =
             (if redis_get (now s) (redis s) elo_calculation_in_progress = None
              then celery s @ [''elo_calculation''] else celery s)
         \<and> redis s1 elo_calculation_in_progress =
             (if redis_get (now s) (redis s) elo_calculation_in_progress = None
              then Some (''1'', Some (now s + 300)) else redis s elo_calculation_in_progress)
         \<and> (redis_get (now s) (redis s) elo_calculation_in_progress = None \<longrightarrow>
              elapsed evs < 300 \<longrightarrow>
              celery (run env evs s1) = celery s @ [''elo_calculation''])"
proof -
  from resolve_caller_may_vote [OF assms(2), of request_obj] obtain user sid itid s0 where
    rc: "resolve_caller env request_obj user_uuid s = (Inr (user, True, sid, itid), s0)"
    by blast
  note pc = post_comparison_valid [OF assms(1) rc]
  have "celery (run env evs s1) = celery s @ [''elo_calculation'']"
    if free: "redis_get (now s) (redis s) elo_calculation_in_progress = None"
      and win: "elapsed evs < 300"
  proof -
    have "lock_held_for (elapsed evs) s1"
      using pc(4) free win assms(3) by (simp add: lock_held_for_def)
    from run_locked [OF this, of env] pc(3) free assms(3) show ?thesis by simp
  qed
  with pc assms(3) show ?thesis by simp
qed

theorem recompute_debounced_witness:
  "celery (snd (post_comparison demo_env demo_vote [] None demo_state)) = [''elo_calculation'']
   \<and> redis (snd (post_comparison demo_env demo_vote [] None demo_state))
        elo_calculation_in_progress = Some (''1'', Some 300)
   \<and> length (comparison_tbl (db
        (run demo_env [Elapse 100, Vote demo_vote_v [] (Some ''bob''), Elapse 199]
           (snd (post_comparison demo_env demo_vote [] None demo_state))))) = 2
   \<and> celery (run demo_env [Elapse 100, Vote demo_vote_v [] (Some ''bob''), Elapse 199]
        (snd (post_comparison demo_env demo_vote [] None demo_state))) = [''elo_calculation'']"
proof -
  have anon: "may_vote demo_env None (db demo_state)"
    by (simp add: may_vote_def demo_defs)
  have free: "redis_get (now demo_state) (redis demo_state) elo_calculation_in_progress = None"
    by (simp add: redis_get_def demo_defs active_comparison_def elo_calculation_in_progress_def)
  have st: "celery demo_state = []" "now demo_state = 0" by (simp_all add: demo_defs)
  have two: "length (comparison_tbl (db
        (run demo_env [Elapse 100, Vote demo_vote_v [] (Some ''bob''), Elapse 199]
           (snd (post_comparison demo_env demo_vote [] None demo_state))))) = 2"
    by (simp add: run_def demo_defs vote_defs)
  from recompute_debounced [OF demo_valid_vote anon refl, where request_obj = "[]"
      and evs = "[Elapse 100, Vote demo_vote_v [] (Some ''bob''), Elapse 199]"] free st two
  show ?thesis by simp
qed

text \<open>
  C6, as amended. A submission whose token names a sample that is not in the store
  fails with the KeyError of the sample lookup, which the handler does not catch (a
  500); the token is consumed, and neither the store nor the job queue changes.
\<close>

theorem missing_sample_is_fatal:
  assumes "redis_get (now s) (redis s) (active_comparison (comparison_details_token request)) =
             Some v"
      and "v \<noteq> []"
      and "parse_token_data env v = Inr (metric_id, sample_1_id, sample_2_id)"
      and "caller_known user_uuid (db s)"
      and "sample_1_id \<notin> Sample_comparison_sample_id ` set (sample_tbl (db s))
           \<or> sample_2_id \<notin> Sample_comparison_sample_id ` set (sample_tbl (db s))"
  shows "fst (post_comparison env request request_obj user_uuid s) = Inl KeyError
         \<and> redis (snd (post_comparison env request request_obj user_uuid s))
              (active_comparison (comparison_details_token request)) = None
         \<and> db (snd (post_comparison env request request_obj user_uuid s)) = db s
         \<and> celery (snd (post_comparison env request request_obj user_uuid s)) = celery s"
proof -
  from resolve_caller_known [OF assms(4)] obtain c s1 where
    rc: "resolve_caller env request_obj user_uuid s = (Inr c, s1)" by blast
  note fr = resolve_caller_frame [OF rc]
  obtain user can_vote sid itid where c: "c = (user, can_vote, sid, itid)" by (cases c)
  let ?lk = "sample_lookup_of
               (filter (\<lambda>x. Sample_comparison_sample_id x \<in> set [sample_1_id, sample_2_id])
                  (sample_tbl (db s)))"
  from assms(5) have miss: "?lk sample_1_id = None \<or> ?lk sample_2_id = None"
  proof
    assume "sample_1_id \<notin> Sample_comparison_sample_id ` set (sample_tbl (db s))"
    then have "?lk sample_1_id = None" by (rule sample_lookup_of_missing)
    then show ?thesis ..
  next
    assume "sample_2_id \<notin> Sample_comparison_sample_id ` set (sample_tbl (db s))"
    then have "?lk sample_2_id = None" by (rule sample_lookup_of_missing)
    then show ?thesis ..
  qed
  have db1: "db s1 = db s" using fr by simp
  have rv: "record_vote env request c v (redeemed request s s1) =
              (Inl KeyError, log_db (Select_Sample [sample_1_id, sample_2_id]) (redeemed request s s1))"
  proof (cases "?lk sample_1_id")
    case None
    then show ?thesis
      by (simp add: record_vote_def c assms(3) Let_def db1)
  next
    case (Some x)
    with miss have "?lk sample_2_id = None" by simp
    with Some show ?thesis
      by (simp add: record_vote_def c assms(3) Let_def db1)
  qed
  have "post_comparison env request request_obj user_uuid s =
          (Inl KeyError, log_db (Select_Sample [sample_1_id, sample_2_id]) (redeemed request s s1))"
    using assms(1,2) rv by (simp add: post_comparison_unfold [OF rc])
  with fr show ?thesis by simp
qed

theorem missing_sample_is_fatal_witness:
  "fst (post_comparison demo_env demo_vote_u [] None demo_state) = Inl KeyError
   \<and> redis (snd (post_comparison demo_env demo_vote_u [] None demo_state))
        (active_comparison ''u'') = None
   \<and> db (snd (post_comparison demo_env demo_vote_u [] None demo_state)) = demo_db
   \<and> celery (snd (post_comparison demo_env demo_vote_u [] None demo_state)) = []"
proof -
  have live: "redis_get (now demo_state) (redis demo_state)
                (active_comparison (comparison_details_token demo_vote_u)) = Some ''m:a:c''"
    by (simp add: demo_defs redis_get_def active_comparison_def)
  have ne: "''m:a:c'' \<noteq> []" by simp
  have parse: "parse_token_data demo_env ''m:a:c'' = Inr (''m'', 1, 3)"
    by (simp add: parse_token_data_def split_colon_def demo_env_def)
  have miss: "1 \<notin> Sample_comparison_sample_id ` set (sample_tbl (db demo_state))
              \<or> 3 \<notin> Sample_comparison_sample_id ` set (sample_tbl (db demo_state))"
    by (simp add: demo_defs)
  from missing_sample_is_fatal [OF live ne parse demo_known(1) miss, where request_obj = "[]"]
  show ?thesis by (simp add: demo_defs)
qed

text \<open>
  The claim as stated fails: for the token \<open>u\<close>, whose second sample is not in the
  store, the result is the KeyError and not the 404 of a missing token.
\<close>

theorem missing_sample_reported_as_404_counterexample:
  "redis_get (now demo_state) (redis demo_state) (active_comparison ''u'') = Some ''m:a:c''
   \<and> parse_token_data demo_env ''m:a:c'' = Inr (''m'', 1, 3)
   \<and> filter (\<lambda>x. Sample_comparison_sample_id x = 3) (sample_tbl (db demo_state)) = []
   \<and> fst (post_comparison demo_env demo_vote_u [] None demo_state) = Inl KeyError
   \<and> fst (post_comparison demo_env demo_vote_u [] None demo_state) \<noteq>
       Inl (HTTPException 404 ''No active comparisons found'')"
  by (simp add: demo_defs vote_defs)

text \<open>
  C7. The batch operation answers 500 without a default test set, and with one (and
  the authenticated user's row) 406 for a batch size over 10, then 400 for an unknown
  metric, then 500 when the plan fails to execute. A plan failure returns no batch,
  mints no token, and the one plan executed is the one the strategy flag names.
\<close>

theorem batch_failures:
  "(default_test_set user_id (db s) = None \<longrightarrow>
      status_code (fst (get_comparison_batch env request request_obj user_id s)) = 500)
   \<and> (default_test_set user_id (db s) = Some t \<and> batch_user_found user_id (db s) \<longrightarrow>
        (request_batch_size request > 10 \<longrightarrow>
           status_code (fst (get_comparison_batch env request request_obj user_id s)) = 406)
      \<and> (request_batch_size request \<le> 10
           \<and> scalar (\<lambda>m. Metric_external_id m = request_metric_id request) (metric_tbl (db s)) = None
           \<longrightarrow> status_code (fst (get_comparison_batch env request request_obj user_id s)) = 400)
      \<and> (request_batch_size request \<le> 10
           \<and> scalar (\<lambda>m. Metric_external_id m = request_metric_id request) (metric_tbl (db s)) =
               Some metric
           \<and> db_execute env (query_name_of env) (TestSet_id t) (request_batch_size request) (db s) =
               None
           \<longrightarrow> fst (get_comparison_batch env request request_obj user_id s) =
                 Inl (HTTPException 500
                        (''Failed to retrieve comparison batch using '' @ [CHR 0x27] @
                           query_name_of env @ [CHR 0x27]))
               \<and> redis (snd (get_comparison_batch env request request_obj user_id s)) = redis s
               \<and> uuid4_calls (snd (get_comparison_batch env request request_obj user_id s)) =
                   uuid4_calls s
               \<and> db_log (snd (get_comparison_batch env request request_obj user_id s)) =
                   db_log s @ preamble user_id (db s) @
                     [Select_Metric (request_metric_id request),
                      Execute (query_name_of env) (TestSet_id t) (request_batch_size request)]))"
  unfolding get_comparison_batch_unfold batch_for_test_set_unfold
  by (simp add: status_code_def test_set_not_found_def)

theorem batch_failures_witness:
  "status_code (fst (get_comparison_batch demo_env demo_batch [] None demo_state_no_test_set)) = 500
   \<and> status_code (fst (get_comparison_batch demo_env demo_big [] None demo_state)) = 406
   \<and> status_code (fst (get_comparison_batch demo_env demo_unknown_metric [] None demo_state)) = 400
   \<and> fst (get_comparison_batch demo_env_priority demo_batch [] None demo_state) =
       Inl (HTTPException 500
              (''Failed to retrieve comparison batch using '' @ [CHR 0x27] @
                 ''comparison_batch_query_priority'' @ [CHR 0x27]))
   \<and> redis (snd (get_comparison_batch demo_env_priority demo_batch [] None demo_state)) =
       redis demo_state
   \<and> db_log (snd (get_comparison_batch demo_env_priority demo_batch [] None demo_state)) =
       [Select_TestSet_id ''Unauthenticated Test Set'', Process_session_headers,
        Select_Metric ''m'', Execute ''comparison_batch_query_priority'' 1 1]"
proof -
  let ?t = "\<lparr>TestSet_id = 1, TestSet_name = ''Unauthenticated Test Set''\<rparr>"
  let ?m = "\<lparr>Metric_id = 4, Metric_external_id = ''m''\<rparr>"
  have big: "request_batch_size demo_big > 10" by (simp add: demo_big_def)
  have unknown: "request_batch_size demo_unknown_metric \<le> 10
      \<and> scalar (\<lambda>m. Metric_external_id m = request_metric_id demo_unknown_metric)
            (metric_tbl (db demo_state)) = None"
    by (simp add: demo_unknown_metric_def scalar_def demo_defs)
  have plan: "request_batch_size demo_batch \<le> 10
      \<and> scalar (\<lambda>m. Metric_external_id m = request_metric_id demo_batch)
            (metric_tbl (db demo_state)) = Some ?m
      \<and> db_execute demo_env_priority (query_name_of demo_env_priority) (TestSet_id ?t)
            (request_batch_size demo_batch) (db demo_state) = None"
    by (simp add: demo_batch_def scalar_def demo_defs demo_env_priority_def query_name_of_def)
  have vals: "query_name_of demo_env_priority = ''comparison_batch_query_priority''"
    "db_log demo_state = []" "request_metric_id demo_batch = ''m''"
    "request_batch_size demo_batch = 1"
    by (simp_all add: query_name_of_def demo_env_priority_def demo_defs demo_batch_def)
  from batch_failures [where user_id = None and s = demo_state_no_test_set and env = demo_env
      and request = demo_batch and request_obj = "[]"]
    batch_failures [where user_id = None and s = demo_state and t = ?t and env = demo_env
      and request = demo_big and request_obj = "[]"]
    batch_failures [where user_id = None and s = demo_state and t = ?t and env = demo_env
      and request = demo_unknown_metric and request_obj = "[]"]
    batch_failures [where user_id = None and s = demo_state and t = ?t
      and env = demo_env_priority and request = demo_batch and request_obj = "[]"
      and metric = ?m]
    demo_default_test_set big unknown plan vals
  show ?thesis by simp
qed



text \<open>
  C9, as amended. For a caller that resolves, the token is deleted before the
  eligibility gate, whether or not the caller may vote. An authenticated caller without
  the voting scope consumes it while the Comparison and ComparisonRank tables, the
  recompute lock and the job queue stay as they were, and no later submission of that
  token, by any caller, succeeds. A submission whose user row does not resolve fails at
  the user lookup, before the cache is read, and changes neither cache nor store.
\<close>

theorem token_deleted_before_gate:
  assumes "never_drawn_again env (comparison_details_token request) s"
      and "caller_known user_uuid (db s)"
      and "caller_known later_uuid (db s)"
      and "comparison_details_token later_request = comparison_details_token request"
      and "s1 = snd (post_comparison env request request_obj user_uuid s)"
      and "s2 = run env evs s1"
  shows "redis s1 (active_comparison (comparison_details_token request)) = None
         \<and> (\<not> may_vote env user_uuid (db s) \<longrightarrow>
              comparison_tbl (db s1) = comparison_tbl (db s)
              \<and> comparison_rank_tbl (db s1) = comparison_rank_tbl (db s)
              \<and> redis s1 elo_calculation_in_progress = redis s elo_calculation_in_progress
              \<and> celery s1 = celery s)
         \<and> fst (post_comparison env later_request later_obj later_uuid s2) =
             Inl (HTTPException 404 ''No active comparisons found'')
         \<and> isl (fst (post_comparison env later_request any_obj any_uuid s2))
         \<and> (\<not> caller_known unknown_uuid (db s) \<longrightarrow>
              (fst (post_comparison env request unknown_obj unknown_uuid s) = Inl NoResultFound
               \<or> fst (post_comparison env request unknown_obj unknown_uuid s) =
                   Inl MultipleResultsFound)
              \<and> redis (snd (post_comparison env request unknown_obj unknown_uuid s)) = redis s
              \<and> db (snd (post_comparison env request unknown_obj unknown_uuid s)) = db s
              \<and> celery (snd (post_comparison env request unknown_obj unknown_uuid s)) =
                  celery s)"
proof -
  have spent1: "redis s1 (active_comparison (comparison_details_token request)) = None"
    using assms(2,5) by (simp add: post_comparison_spent)
  have inel: "comparison_tbl (db s1) = comparison_tbl (db s)
              \<and> comparison_rank_tbl (db s1) = comparison_rank_tbl (db s)
              \<and> redis s1 elo_calculation_in_progress = redis s elo_calculation_in_progress
              \<and> celery s1 = celery s"
    if "\<not> may_vote env user_uuid (db s)"
  proof -
    from resolve_caller_may_not_vote [OF assms(2) that, of request_obj]
    obtain user sid itid s0 where
      rc: "resolve_caller env request_obj user_uuid s = (Inr (user, False, sid, itid), s0)"
      by blast
    from post_comparison_ineligible [OF rc, of request] assms(5) show ?thesis by simp
  qed
  have nd1: "never_drawn_again env (comparison_details_token request) s1"
    using assms(1,5) by (simp add: never_drawn_again_def)
  from run_spent [OF nd1 spent1, of evs]
  have spent2: "redis s2 (active_comparison (comparison_details_token later_request)) = None"
    and users: "user_tbl (db s2) = user_tbl (db s)"
    using assms(4,5,6) by simp_all
  have known: "caller_known later_uuid (db s2)"
    using assms(3) caller_known_cong [OF users] by simp
  have "redis_get (now s2) (redis s2)
          (active_comparison (comparison_details_token later_request)) = None"
    using spent2 by (simp add: redis_get_def)
  from post_comparison_absent [OF known this, of env later_obj]
  have late: "fst (post_comparison env later_request later_obj later_uuid s2) =
             Inl (HTTPException 404 ''No active comparisons found'')"
    by simp
  note fails = post_comparison_absent_fails [OF spent2, of env any_obj any_uuid]
  note unknown = post_comparison_unknown_caller [of unknown_uuid s env request unknown_obj]
  from spent1 inel late fails unknown show ?thesis by blast
qed

theorem token_deleted_before_gate_witness:
  "redis (snd (post_comparison demo_env demo_vote [] None demo_state))
     (active_comparison ''t'') = None
   \<and> fst (post_comparison demo_env demo_vote [] (Some ''alice'') demo_state) =
       Inr \<lparr>sample_1_model = ''model-a'', sample_2_model = ''model-b''\<rparr>
   \<and> redis (snd (post_comparison demo_env demo_vote [] (Some ''alice'') demo_state))
        (active_comparison ''t'') = None
   \<and> comparison_tbl (db (snd (post_comparison demo_env demo_vote [] (Some ''alice'') demo_state))) = []
   \<and> comparison_rank_tbl
        (db (snd (post_comparison demo_env demo_vote [] (Some ''alice'') demo_state))) = []
   \<and> celery (snd (post_comparison demo_env demo_vote [] (Some ''alice'') demo_state)) = []
   \<and> redis (snd (post_comparison demo_env demo_vote [] (Some ''alice'') demo_state))
        elo_calculation_in_progress = None
   \<and> fst (post_comparison demo_env demo_vote [] (Some ''bob'')
            (run demo_env [Elapse 1]
               (snd (post_comparison demo_env demo_vote [] (Some ''alice'') demo_state)))) =
       Inl (HTTPException 404 ''No active comparisons found'')
   \<and> fst (post_comparison demo_env demo_vote [] (Some ''carol'') demo_state) = Inl NoResultFound
   \<and> redis (snd (post_comparison demo_env demo_vote [] (Some ''carol'') demo_state)) =
       redis demo_state"
proof -
  have nd: "never_drawn_again demo_env (comparison_details_token demo_vote) demo_state"
    using demo_never_drawn_again by (simp add: demo_vote_def)
  have bob: "caller_known (Some ''bob'') (db demo_state)"
    and carol: "\<not> caller_known (Some ''carol'') (db demo_state)"
    and alice: "\<not> may_vote demo_env (Some ''alice'') (db demo_state)"
    by (simp_all add: caller_known_def may_vote_def demo_defs)
  have tok: "comparison_details_token demo_vote = ''t''" by (simp add: demo_vote_def)
  have reply: "fst (post_comparison demo_env demo_vote [] (Some ''alice'') demo_state) =
     Inr \<lparr>sample_1_model = ''model-a'', sample_2_model = ''model-b''\<rparr>"
    by (simp add: demo_defs vote_defs)
  have carol_err: "fst (post_comparison demo_env demo_vote [] (Some ''carol'') demo_state) \<noteq>
                     Inl MultipleResultsFound"
    by (simp add: demo_defs vote_defs)
  have st: "comparison_tbl (db demo_state) = []" "comparison_rank_tbl (db demo_state) = []"
    "celery demo_state = []" "redis demo_state elo_calculation_in_progress = None"
    by (simp_all add: demo_defs active_comparison_def elo_calculation_in_progress_def)
  from token_deleted_before_gate [OF nd demo_known(1) bob refl refl refl,
      where request_obj = "[]" and evs = "[]" and later_obj = "[]" and any_obj = "[]"
        and any_uuid = None and unknown_uuid = "Some ''carol''" and unknown_obj = "[]"]
    tok
  have eligible: "redis (snd (post_comparison demo_env demo_vote [] None demo_state))
     (active_comparison ''t'') = None"
    by simp
  from token_deleted_before_gate [OF nd demo_known(2) bob refl refl refl,
      where request_obj = "[]" and evs = "[Elapse 1]" and later_obj = "[]"
        and any_obj = "[]" and any_uuid = None and unknown_uuid = "Some ''carol''"
        and unknown_obj = "[]"]
    alice carol carol_err tok st
  have rest: "redis (snd (post_comparison demo_env demo_vote [] (Some ''alice'') demo_state))
        (active_comparison ''t'') = None
   \<and> comparison_tbl (db (snd (post_comparison demo_env demo_vote [] (Some ''alice'') demo_state))) = []
   \<and> comparison_rank_tbl
        (db (snd (post_comparison demo_env demo_vote [] (Some ''alice'') demo_state))) = []
   \<and> celery (snd (post_comparison demo_env demo_vote [] (Some ''alice'') demo_state)) = []
   \<and> redis (snd (post_comparison demo_env demo_vote [] (Some ''alice'') demo_state))
        elo_calculation_in_progress = None
   \<and> fst (post_comparison demo_env demo_vote [] (Some ''bob'')
            (run demo_env [Elapse 1]
               (snd (post_comparison demo_env demo_vote [] (Some ''alice'') demo_state)))) =
       Inl (HTTPException 404 ''No active comparisons found'')
   \<and> fst (post_comparison demo_env demo_vote [] (Some ''carol'') demo_state) = Inl NoResultFound
   \<and> redis (snd (post_comparison demo_env demo_vote [] (Some ''carol'') demo_state)) =
       redis demo_state"
    by simp
  from eligible reply rest show ?thesis by simp
qed

text \<open>
  The claim as stated fails for a caller whose user row is missing: the submission
  presents the live token \<open>t\<close>, fails with NoResultFound, and the token stays in the
  cache, where a later submission redeems it.
\<close>

theorem unresolved_caller_keeps_token_counterexample:
  "redis_get (now demo_state) (redis demo_state) (active_comparison ''t'') = Some ''m:a:b''
   \<and> fst (post_comparison demo_env demo_vote [] (Some ''carol'') demo_state) = Inl NoResultFound
   \<and> redis (snd (post_comparison demo_env demo_vote [] (Some ''carol'') demo_state))
        (active_comparison ''t'') = Some (''m:a:b'', Some 3600)
   \<and> fst (post_comparison demo_env demo_vote [] None
            (snd (post_comparison demo_env demo_vote [] (Some ''carol'') demo_state))) =
       Inr \<lparr>sample_1_model = ''model-a'', sample_2_model = ''model-b''\<rparr>"
  by (simp add: demo_defs vote_defs)

text \<open>
  C10. The batch operation takes the test set from the caller's authentication state:
  the row named "Unauthenticated Test Set" without a user id, "Authenticated Test Set"
  with one. A missing row is a 500 and a missing user row a 404, both before any plan
  is executed; every plan executed carries the id of that row; and two requests with
  the same batch size and metric id get the same result, whatever else they carry.
\<close>

theorem test_set_from_authentication_state:
  "(default_test_set user_id (db s) = None \<longrightarrow>
      fst (get_comparison_batch env request request_obj user_id s) =
        Inl (test_set_not_found user_id)
      \<and> db_log (snd (get_comparison_batch env request request_obj user_id s)) =
          db_log s @ [Select_TestSet_id (default_test_set_name user_id)])
   \<and> (default_test_set user_id (db s) = Some t \<and> user_id = Some u
        \<and> \<not> batch_user_found user_id (db s) \<longrightarrow>
        fst (get_comparison_batch env request request_obj user_id s) =
          Inl (HTTPException 404 ''Authenticated user not found'')
        \<and> db_log (snd (get_comparison_batch env request request_obj user_id s)) =
            db_log s @ [Select_TestSet_id (default_test_set_name user_id), Select_User u])
   \<and> (default_test_set user_id (db s) = Some t \<and> batch_user_found user_id (db s) \<longrightarrow>
        get_comparison_batch env request request_obj user_id s =
          batch_for_test_set env request (TestSet_id t)
            (s\<lparr>db_log := db_log s @ preamble user_id (db s)\<rparr>))
   \<and> (Execute name tsid n \<in> set (db_log (snd (get_comparison_batch env request request_obj user_id s)))
        \<and> Execute name tsid n \<notin> set (db_log s) \<longrightarrow>
        map_option TestSet_id (default_test_set user_id (db s)) = Some tsid)
   \<and> (request_batch_size request' = request_batch_size request
        \<and> request_metric_id request' = request_metric_id request \<longrightarrow>
        get_comparison_batch env request' request_obj user_id s =
          get_comparison_batch env request request_obj user_id s)"
proof -
  let ?R = "get_comparison_batch env request request_obj user_id s"
  have a: "default_test_set user_id (db s) = None \<longrightarrow>
      fst ?R = Inl (test_set_not_found user_id)
      \<and> db_log (snd ?R) = db_log s @ [Select_TestSet_id (default_test_set_name user_id)]"
    unfolding get_comparison_batch_unfold by (simp add: preamble_def)
  have b: "default_test_set user_id (db s) = Some t \<and> user_id = Some u
        \<and> \<not> batch_user_found user_id (db s) \<longrightarrow>
        fst ?R = Inl (HTTPException 404 ''Authenticated user not found'')
        \<and> db_log (snd ?R) =
            db_log s @ [Select_TestSet_id (default_test_set_name user_id), Select_User u]"
    unfolding get_comparison_batch_unfold by (auto simp: preamble_def)
  have c: "default_test_set user_id (db s) = Some t \<and> batch_user_found user_id (db s) \<longrightarrow>
        ?R = batch_for_test_set env request (TestSet_id t)
               (s\<lparr>db_log := db_log s @ preamble user_id (db s)\<rparr>)"
    unfolding get_comparison_batch_unfold by simp
  have d: "map_option TestSet_id (default_test_set user_id (db s)) = Some tsid"
    if "Execute name tsid n \<in> set (db_log (snd ?R))" "Execute name tsid n \<notin> set (db_log s)"
  proof (cases "default_test_set user_id (db s)")
    case None
    with that a show ?thesis by auto
  next
    case (Some t')
    show ?thesis
    proof (cases "batch_user_found user_id (db s)")
      case False
      with Some that preamble_ops [of "Execute name tsid n" user_id "db s"] show ?thesis
        unfolding get_comparison_batch_unfold by auto
    next
      case True
      with Some have R: "?R = batch_for_test_set env request (TestSet_id t')
               (s\<lparr>db_log := db_log s @ preamble user_id (db s)\<rparr>)"
        unfolding get_comparison_batch_unfold by simp
      from that(1) batch_for_test_set_log [of env request "TestSet_id t'"
          "s\<lparr>db_log := db_log s @ preamble user_id (db s)\<rparr>"]
      have "Execute name tsid n \<in> set (db_log s) \<union> set (preamble user_id (db s)) \<union>
              {Select_Metric (request_metric_id request),
               Execute (query_name_of env) (TestSet_id t') (request_batch_size request),
               Select_avg_vote_count (TestSet_id t')}"
        unfolding R by auto
      with that(2) preamble_ops [of "Execute name tsid n" user_id "db s"] Some
      show ?thesis by auto
    qed
  qed
  have e: "request_batch_size request' = request_batch_size request
        \<and> request_metric_id request' = request_metric_id request \<longrightarrow>
        get_comparison_batch env request' request_obj user_id s = ?R"
    using get_comparison_batch_request by blast
  from a b c d e show ?thesis by blast
qed

theorem test_set_from_authentication_state_witness:
  "fst (get_comparison_batch demo_env demo_batch [] None demo_state_no_test_set) =
     Inl (HTTPException 500 ''Default unauthenticated test set not found'')
   \<and> db_log (snd (get_comparison_batch demo_env demo_batch [] None demo_state_no_test_set)) =
       [Select_TestSet_id ''Unauthenticated Test Set'']
   \<and> fst (get_comparison_batch demo_env demo_batch [] (Some ''carol'') demo_state) =
       Inl (HTTPException 404 ''Authenticated user not found'')
   \<and> db_log (snd (get_comparison_batch demo_env demo_batch [] (Some ''carol'') demo_state)) =
       [Select_TestSet_id ''Authenticated Test Set'', Select_User ''carol'']
   \<and> db_log (snd (get_comparison_batch demo_env demo_batch [] None demo_state)) =
       [Select_TestSet_id ''Unauthenticated Test Set'', Process_session_headers,
        Select_Metric ''m'', Execute ''comparison_batch_query'' 1 1]
   \<and> get_comparison_batch demo_env
        \<lparr>request_batch_size = 1, request_metric_id = ''m'', \<dots> = (99::int)\<rparr> [] None demo_state =
       get_comparison_batch demo_env demo_batch [] None demo_state"
proof -
  let ?t = "\<lparr>TestSet_id = 1, TestSet_name = ''Unauthenticated Test Set''\<rparr>"
  let ?t' = "\<lparr>TestSet_id = 2, TestSet_name = ''Authenticated Test Set''\<rparr>"
  have lg: "db_log (snd (get_comparison_batch demo_env demo_batch [] None demo_state)) =
       [Select_TestSet_id ''Unauthenticated Test Set'', Process_session_headers,
        Select_Metric ''m'', Execute ''comparison_batch_query'' 1 1]"
    by (simp add: demo_defs demo_batch_def batch_defs)
  have vals: "db_log demo_state = []" "db_log demo_state_no_test_set = []"
    "test_set_not_found None = HTTPException 500 ''Default unauthenticated test set not found''"
    "default_test_set_name None = ''Unauthenticated Test Set''"
    "default_test_set_name (Some ''carol'') = ''Authenticated Test Set''"
    "request_batch_size demo_batch = 1" "request_metric_id demo_batch = ''m''"
    by (simp_all add: demo_defs demo_batch_defs batch_view_defs)
  have a: "fst (get_comparison_batch demo_env demo_batch [] None demo_state_no_test_set) =
             Inl (HTTPException 500 ''Default unauthenticated test set not found'')
      \<and> db_log (snd (get_comparison_batch demo_env demo_batch [] None demo_state_no_test_set)) =
          [Select_TestSet_id ''Unauthenticated Test Set'']"
    using test_set_from_authentication_state [where user_id = None
        and s = demo_state_no_test_set and env = demo_env and request = demo_batch
        and request_obj = "[]" and name = "[]" and tsid = 0 and n = 0
        and request' = demo_batch] demo_default_test_set vals
    by simp
  have b: "fst (get_comparison_batch demo_env demo_batch [] (Some ''carol'') demo_state) =
             Inl (HTTPException 404 ''Authenticated user not found'')
      \<and> db_log (snd (get_comparison_batch demo_env demo_batch [] (Some ''carol'') demo_state)) =
          [Select_TestSet_id ''Authenticated Test Set'', Select_User ''carol'']"
    using test_set_from_authentication_state [where user_id = "Some ''carol''"
        and s = demo_state and env = demo_env and request = demo_batch and request_obj = "[]"
        and t = ?t' and u = "''carol''" and name = "[]" and tsid = 0 and n = 0
        and request' = demo_batch] demo_default_test_set vals
    by simp
  have c: "get_comparison_batch demo_env
        \<lparr>request_batch_size = 1, request_metric_id = ''m'', \<dots> = (99::int)\<rparr> [] None demo_state =
       get_comparison_batch demo_env demo_batch [] None demo_state"
    using test_set_from_authentication_state [where user_id = None and s = demo_state
        and env = demo_env and request = demo_batch and request_obj = "[]" and t = ?t
        and request' = "\<lparr>request_batch_size = 1, request_metric_id = ''m'', \<dots> = (99::int)\<rparr>"
        and name = "[]" and tsid = 0 and n = 0]
      vals(6,7)
    by simp
  from a b lg c show ?thesis by simp
qed

end
